theory Spec2Isabelle
  imports Complex_Main "HOL-Library.AList" "HOL-Library.Multiset"
    "HOL-Library.Code_Target_Nat"
begin

section \<open>Provider client (llm\_client.py)\<close>

text \<open>
  Exceptions are values. \<open>ApiError\<close> stands for whatever a backend call (or the reading
  of its response) raises; its argument is the text of the exception, which is all the
  callers ever use of it (\<open>str(e)\<close>).
\<close>

datatype exn = ApiError string | ValueError string | KeyError string | TypeError string

fun str_exn :: "exn \<Rightarrow> string" where
  "str_exn (ApiError m) = m"
| "str_exn (ValueError m) = m"
| "str_exn (KeyError m) = m"
| "str_exn (TypeError m) = m"

text \<open>
  \<open>LLMClient._initialize\<close>: the primary client object exists iff \<open>GROQ_API_KEY\<close> is
  truthy (set and not empty); the secondary backend is used iff \<open>MISTRAL_API_KEY\<close> is.
\<close>

record llm_client =
  primary_api_key :: "string option"
  mistral_api_key :: "string option"

definition truthy :: "string option \<Rightarrow> bool" where
  "truthy v = (v \<noteq> None \<and> v \<noteq> Some [])"

definition primary_client :: "llm_client \<Rightarrow> bool" where
  "primary_client c = truthy (primary_api_key c)"

datatype backend = Primary | Mistral

definition both_failed_msg :: string where
  "both_failed_msg = ''Both primary and fallback LLM models failed or are not configured.''"

text \<open>
  \<open>LLMClient.generate\<close>. The two arguments \<open>p\<close> and \<open>m\<close> say what the primary and the
  Mistral backend do when they are called with this request: raise (\<open>Inl\<close>) or answer
  (\<open>Inr\<close>). The result pairs the backends that were really called, in order, with what
  the method returns or raises. The primary's exception is printed and dropped; the
  Mistral handler prints and re-raises (\<open>raise\<close>) the Mistral exception itself.
\<close>

definition generate ::
  "llm_client \<Rightarrow> exn + string \<Rightarrow> exn + string \<Rightarrow> backend list \<times> (exn + string)" where
  "generate c p m =
     (let fallback = (\<lambda>tried.
            if truthy (mistral_api_key c) then
              (case m of
                 Inr text \<Rightarrow> (tried @ [Mistral], Inr text)
               | Inl e \<Rightarrow> (tried @ [Mistral], Inl e))
            else (tried, Inl (ValueError both_failed_msg)))
      in if primary_client c then
           (case p of
              Inr text \<Rightarrow> ([Primary], Inr text)
            | Inl e \<Rightarrow> fallback [Primary])
         else fallback [])"

text \<open>
  \<open>LLMClient.generate_with_tools\<close>: the same control flow; a backend answers with a
  message whose \<open>tool_calls\<close> attribute may be missing or empty, and the method
  translates it into the uniform result \<open>{"content": ..., "tool_calls": [...]}\<close>.
\<close>

record tool_call =
  tc_id :: string
  tc_name :: string
  tc_arguments :: string

record message =
  msg_content :: "string option"
  msg_tool_calls :: "tool_call list option"
  msg_role :: string

record tool_response =
  content :: "string option"
  tool_calls :: "tool_call list"

definition to_result :: "message \<Rightarrow> tool_response" where
  "to_result msg =
     \<lparr>content = msg_content msg,
      tool_calls = (case msg_tool_calls msg of None \<Rightarrow> [] | Some tcs \<Rightarrow> tcs)\<rparr>"

definition generate_with_tools ::
  "llm_client \<Rightarrow> exn + message \<Rightarrow> exn + message \<Rightarrow> backend list \<times> (exn + tool_response)" where
  "generate_with_tools c p m =
     (let fallback = (\<lambda>tried.
            if truthy (mistral_api_key c) then
              (case m of
                 Inr msg \<Rightarrow> (tried @ [Mistral], Inr (to_result msg))
               | Inl e \<Rightarrow> (tried @ [Mistral], Inl e))
            else (tried, Inl (ValueError both_failed_msg)))
      in if primary_client c then
           (case p of
              Inr msg \<Rightarrow> ([Primary], Inr (to_result msg))
            | Inl e \<Rightarrow> fallback [Primary])
         else fallback [])"

text \<open>\<open>LLMClient.chat\<close>: again the same control flow; the result also has the role.\<close>

record chat_response =
  chat_content :: "string option"
  chat_tool_calls :: "tool_call list"
  role :: string

definition to_chat_result :: "message \<Rightarrow> chat_response" where
  "to_chat_result msg =
     \<lparr>chat_content = msg_content msg,
      chat_tool_calls = (case msg_tool_calls msg of None \<Rightarrow> [] | Some tcs \<Rightarrow> tcs),
      role = msg_role msg\<rparr>"

definition chat ::
  "llm_client \<Rightarrow> exn + message \<Rightarrow> exn + message \<Rightarrow> backend list \<times> (exn + chat_response)" where
  "chat c p m =
     (let fallback = (\<lambda>tried.
            if truthy (mistral_api_key c) then
              (case m of
                 Inr msg \<Rightarrow> (tried @ [Mistral], Inr (to_chat_result msg))
               | Inl e \<Rightarrow> (tried @ [Mistral], Inl e))
            else (tried, Inl (ValueError both_failed_msg)))
      in if primary_client c then
           (case p of
              Inr msg \<Rightarrow> ([Primary], Inr (to_chat_result msg))
            | Inl e \<Rightarrow> fallback [Primary])
         else fallback [])"

section \<open>Python string operations used by the agents\<close>

text \<open>
  Strings are byte strings; the operations below are the ASCII behaviour of
  \<open>str.strip\<close>, \<open>str.upper\<close>, \<open>in\<close>, \<open>str.startswith\<close>, \<open>str.split("\n")\<close> and
  \<open>"\n".join\<close>.
\<close>

definition newline :: char where
  "newline = CHR 0x0A"

definition py_isspace :: "char \<Rightarrow> bool" where
  "py_isspace c = (c \<in> set [CHR 0x20, CHR 0x09, CHR 0x0A, CHR 0x0D, CHR 0x0B, CHR 0x0C,
                               CHR 0x1C, CHR 0x1D, CHR 0x1E, CHR 0x1F])"

definition py_strip :: "string \<Rightarrow> string" where
  "py_strip s = rev (dropWhile py_isspace (rev (dropWhile py_isspace s)))"

definition py_upper_char :: "char \<Rightarrow> char" where
  "py_upper_char c =
     (case map_of (zip ''abcdefghijklmnopqrstuvwxyz'' ''ABCDEFGHIJKLMNOPQRSTUVWXYZ'') c of
        Some u \<Rightarrow> u
      | None \<Rightarrow> c)"

definition py_upper :: "string \<Rightarrow> string" where
  "py_upper s = map py_upper_char s"

definition startswith :: "string \<Rightarrow> string \<Rightarrow> bool" where
  "startswith s p = (take (length p) s = p)"

fun py_in :: "string \<Rightarrow> string \<Rightarrow> bool" where
  "py_in sub [] = (sub = [])"
| "py_in sub (c # r) = (startswith (c # r) sub \<or> py_in sub r)"

fun split_lines :: "string \<Rightarrow> string list" where
  "split_lines [] = [[]]"
| "split_lines (c # r) =
     (if c = newline then [] # split_lines r
      else (case split_lines r of
              l # ls \<Rightarrow> (c # l) # ls
            | [] \<Rightarrow> [[c]]))"

fun join_lines :: "string list \<Rightarrow> string" where
  "join_lines [] = []"
| "join_lines [l] = l"
| "join_lines (l # ls) = l @ [newline] @ join_lines ls"

definition fence :: string where
  "fence = [CHR 0x60, CHR 0x60, CHR 0x60]"

section \<open>SQL validation and clean-up (sql\_agent.py)\<close>

text \<open>
  \<open>validate_sql_syntax\<close>. The parsing library is outside the repository: the argument
  \<open>sqlparse\<close> is \<open>None\<close> when the import failed (\<open>SQLPARSE_AVAILABLE = False\<close>), and
  otherwise \<open>Some get_type\<close>, where \<open>get_type sql\<close> is the type of the first parsed
  statement, or \<open>None\<close> when nothing was parsed or the parser raised.
\<close>

definition validate_sql_syntax :: "(string \<Rightarrow> string option) option \<Rightarrow> string \<Rightarrow> bool" where
  "validate_sql_syntax sqlparse sql0 =
     (if sql0 = [] \<or> py_strip sql0 = [] then False
      else
        let sql1 = py_strip sql0;
            sql2 = (if startswith sql1 fence then
                      (let lines = split_lines sql1;
                           body = (if length lines > 2 then join_lines (butlast (tl lines)) else sql1)
                       in if startswith body ''sql'' then py_strip (drop 3 body) else body)
                    else sql1)
        in (case sqlparse of
              Some get_type \<Rightarrow>
                (case get_type sql2 of
                   None \<Rightarrow> False
                 | Some t \<Rightarrow> t \<in> set [''SELECT'', ''WITH''])
            | None \<Rightarrow>
                (let sql_upper = py_strip (py_upper sql2)
                 in startswith sql_upper ''SELECT'' \<or> startswith sql_upper ''WITH'')))"

text \<open>
  The clean-up of a generated answer in \<open>sql_generation_node\<close>: when the text contains
  a code fence, \<open>re.search(r'```(?:sql)?\s*(.*?)\s*```', text, re.DOTALL)\<close> is tried and
  its group 1, stripped, replaces the text. The leftmost fence opens the match; a match
  exists iff another fence follows it; the optional \<open>sql\<close> and the white space are
  consumed greedily; the lazy group ends at the first position from which only white
  space precedes a fence.
\<close>

fun lazy_group :: "string \<Rightarrow> string" where
  "lazy_group [] = []"
| "lazy_group (c # r) =
     (if startswith (dropWhile py_isspace (c # r)) fence then [] else c # lazy_group r)"

fun fence_search :: "string \<Rightarrow> string option" where
  "fence_search [] = None"
| "fence_search (c # r) =
     (if startswith (c # r) fence then
        (let rest = drop 3 (c # r)
         in if py_in fence rest then
              Some (lazy_group (dropWhile py_isspace
                      (if startswith rest ''sql'' then drop 3 rest else rest)))
            else None)
      else fence_search r)"

definition clean_sql :: "string \<Rightarrow> string" where
  "clean_sql raw =
     (let sql_query = py_strip raw
      in if py_in fence sql_query then
           (case fence_search sql_query of
              Some g \<Rightarrow> py_strip g
            | None \<Rightarrow> sql_query)
         else sql_query)"

section \<open>Table catalogue and agent state (sql\_agent.py)\<close>

text \<open>
  A table descriptor keeps the two fields the planner reads (\<open>table_name\<close>,
  \<open>description\<close>); the column lists only feed the text of the generation prompt.
\<close>

record table_info =
  table_name :: string
  description :: string

record category_info =
  name :: string
  tables :: "table_info list"

definition CATEGORY_1_TABLES :: "table_info list" where
  "CATEGORY_1_TABLES =
     [\<lparr>table_name = ''customers'',
        description = ''Customer information including loyalty, demographics, and account status''\<rparr>,
      \<lparr>table_name = ''customer_addresses'',
        description = ''Customer billing and shipping addresses with location details''\<rparr>,
      \<lparr>table_name = ''orders'',
        description = ''Order transactions with status, payment, and fulfillment information''\<rparr>,
      \<lparr>table_name = ''order_items'',
        description = ''Individual items within orders with pricing and fulfillment details''\<rparr>,
      \<lparr>table_name = ''payments'',
        description = ''Payment transactions and methods with gateway information''\<rparr>]"

definition CATEGORY_2_TABLES :: "table_info list" where
  "CATEGORY_2_TABLES =
     [\<lparr>table_name = ''products'',
        description = ''Product catalog with pricing, dimensions, and categorization''\<rparr>,
      \<lparr>table_name = ''product_variants'',
        description = ''Product variations (size, color, material) with pricing and inventory''\<rparr>,
      \<lparr>table_name = ''inventory'',
        description = ''Warehouse inventory levels and stock management''\<rparr>,
      \<lparr>table_name = ''categories'',
        description = ''Product category hierarchy with SEO and performance metrics''\<rparr>,
      \<lparr>table_name = ''suppliers'',
        description = ''Supplier information and terms''\<rparr>]"

definition CATEGORY_3_TABLES :: "table_info list" where
  "CATEGORY_3_TABLES =
     [\<lparr>table_name = ''warehouses'',
        description = ''Warehouse locations and capacity information''\<rparr>,
      \<lparr>table_name = ''shipments'',
        description = ''Order shipment tracking and delivery status''\<rparr>,
      \<lparr>table_name = ''product_reviews'',
        description = ''Customer product reviews and ratings''\<rparr>,
      \<lparr>table_name = ''promotions'',
        description = ''Promotional campaigns and discount codes''\<rparr>,
      \<lparr>table_name = ''sales_analytics'',
        description = ''Aggregated sales metrics and KPIs''\<rparr>]"

definition CATEGORY_MAP :: "nat \<Rightarrow> category_info option" where
  "CATEGORY_MAP i =
     (if i = 0 then Some \<lparr>name = ''Customer & Sales'', tables = CATEGORY_1_TABLES\<rparr>
      else if i = 1 then Some \<lparr>name = ''Inventory & Products'', tables = CATEGORY_2_TABLES\<rparr>
      else if i = 2 then Some \<lparr>name = ''Operations & Analytics'', tables = CATEGORY_3_TABLES\<rparr>
      else None)"

definition tool_name_to_index :: "string \<Rightarrow> nat option" where
  "tool_name_to_index n =
     (if n = ''get_customer_sales_tables'' then Some 0
      else if n = ''get_inventory_products_tables'' then Some 1
      else if n = ''get_operations_analytics_tables'' then Some 2
      else None)"

text \<open>The judgment stored in \<open>evaluation_result\<close>; \<open>None\<close> there is the empty dict.\<close>

record eval_result =
  passed :: bool
  ev_accuracy_score :: rat
  optimization_score :: rat
  feedback :: string
  suggestions :: "string list"

text \<open>\<open>AgentState\<close>, without the \<open>messages\<close> channel, which no node reads or writes.\<close>

record agent_state =
  user_query :: string
  selected_tool_order :: "nat list"
  current_tool_index :: nat
  tools_attempted :: "nat list"
  selected_tables :: "table_info list option"
  selected_category :: "string option"
  tables_satisfactory :: bool
  planner_reasoning :: string
  generated_sql :: "string option"
  sql_generation_attempts :: nat
  sql_generation_error :: "string option"
  sql_valid :: bool
  sql_history :: "string list"
  evaluation_result :: "eval_result option"
  optimization_suggestions :: "string list"
  accuracy_score :: rat
  needs_regeneration :: bool
  tool_calls_made :: "(string \<times> string list) list"
  final_sql :: "string option"
  error_message :: "string option"
  workflow_complete :: bool

section \<open>The outside world of one run\<close>

text \<open>
  What the evaluation step observes of its model call: the client raised, or reading the
  judgment raised something other than a JSON error (\<open>Eval_raises\<close>, the handler
  \<open>except Exception\<close>); the text was not JSON (\<open>Eval_not_json\<close>, the handler
  \<open>except json.JSONDecodeError\<close>); or a judgment with all its fields was read. The
  feedback of a judgment is a string here; a judgment whose feedback is another JSON
  value is not modelled (with it, the concatenation of line 868 raises at the
  regeneration cap).
\<close>

datatype eval_reply = Eval_raises exn | Eval_not_json | Eval_judgment eval_result

text \<open>
  Every answer the provider client gives during a run, as \<open>LLMClient.generate\<close> and
  \<open>generate_with_tools\<close> return or raise it. The adequacy call is indexed by the cursor at
  which it is made, the generation call by the attempt count before it, the evaluation
  call by the attempt count at that time: each index is used at most once in a run.
  An answer without text (\<open>content\<close> is \<open>None\<close>) makes the caller raise inside its
  \<open>try\<close> at the first use of the text, so it is one of the \<open>Inl\<close> answers.
  \<open>sqlparse\<close> is the parsing library (see \<open>validate_sql_syntax\<close>) and \<open>fmt_2f\<close> the float
  formatting \<open>:.2f\<close>.
\<close>

record world =
  ordering_call :: "exn + tool_response"
  scope_call :: "exn + string"
  relevance_call :: "nat \<Rightarrow> exn + string"
  generation_call :: "nat \<Rightarrow> exn + string"
  evaluation_call :: "nat \<Rightarrow> eval_reply"
  sqlparse :: "(string \<Rightarrow> string option) option"
  fmt_2f :: "rat \<Rightarrow> string"

section \<open>Planner agent\<close>

definition cross_mark :: string where
  "cross_mark = [CHR 0xE2, CHR 0x9D, CHR 0x8C]"

definition out_of_scope_msg :: "string \<Rightarrow> string" where
  "out_of_scope_msg q =
     cross_mark @ '' The query about '' @ [CHR 0x27] @ q @ [CHR 0x27] @
     '' is outside our Retail database scope. We handle Customers, Products, and Sales data.''"

definition exhausted_msg :: string where
  "exhausted_msg =
     cross_mark @ '' I couldn't find any satisfactory tables to answer your query. Please try rephrasing or ask about products, orders, or customers.''"

text \<open>The loop over the returned tool calls, and the loop adding the remaining tools.\<close>

fun collect_tool_order :: "tool_call list \<Rightarrow> nat list \<Rightarrow> nat list" where
  "collect_tool_order [] tool_order = tool_order"
| "collect_tool_order (tc # tcs) tool_order =
     (case tool_name_to_index (tc_name tc) of
        Some idx \<Rightarrow>
          collect_tool_order tcs (if idx \<notin> set tool_order then tool_order @ [idx] else tool_order)
      | None \<Rightarrow> collect_tool_order tcs tool_order)"

fun add_remaining :: "nat list \<Rightarrow> nat list \<Rightarrow> nat list" where
  "add_remaining [] tool_order = tool_order"
| "add_remaining (i # is) tool_order =
     add_remaining is (if i \<notin> set tool_order then tool_order @ [i] else tool_order)"

text \<open>
  The literal searched in the adequacy answer: \<open>re.search(r'0?\.\d+|1\.0|0|1', text)\<close>
  returns the leftmost match, trying the alternatives in order at each position.
\<close>

definition is_digit :: "char \<Rightarrow> bool" where
  "is_digit c = (c \<in> set ''0123456789'')"

definition match_here :: "string \<Rightarrow> string option" where
  "match_here s =
     (if startswith s ''0.'' \<and> length s > 2 \<and> is_digit (s ! 2)
        then Some (''0.'' @ takeWhile is_digit (drop 2 s))
      else if startswith s ''.'' \<and> length s > 1 \<and> is_digit (s ! 1)
        then Some (''.'' @ takeWhile is_digit (drop 1 s))
      else if startswith s ''1.0'' then Some ''1.0''
      else if startswith s ''0'' then Some ''0''
      else if startswith s ''1'' then Some ''1''
      else None)"

fun score_search :: "string \<Rightarrow> string option" where
  "score_search [] = None"
| "score_search (c # r) =
     (case match_here (c # r) of
        Some m \<Rightarrow> Some m
      | None \<Rightarrow> score_search r)"

text \<open>
  A Python float is a binary64 number, modelled by the rational it denotes.
  \<open>to_double n d\<close> is the double nearest to \<open>n / d\<close> (ties to even) for
  \<open>0 \<le> n / d \<le> 1\<close>, which is where every matched literal lies: \<open>binade\<close> finds
  the \<open>j\<close> with \<open>2 ^ -j \<le> n / d < 2 ^ (1 - j)\<close>, capped at the subnormal range, and
  the value is rounded to a multiple of \<open>2 ^ -(j + 52)\<close>. \<open>float(literal)\<close> is the
  double nearest to the decimal, and the constant \<open>0.8\<close> of the source is the double
  nearest to 8/10.
\<close>

fun binade :: "nat \<Rightarrow> nat \<Rightarrow> nat \<Rightarrow> nat \<Rightarrow> nat" where
  "binade 0 n d j = j"
| "binade (Suc fuel) n d j = (if d \<le> n * 2 ^ j then j else binade fuel n d (Suc j))"

definition to_double :: "nat \<Rightarrow> nat \<Rightarrow> rat" where
  "to_double n d =
     (if n = 0 then 0
      else
        let j = binade 1022 n d 0;
            scaled = n * 2 ^ (j + 52);
            f = scaled div d;
            r = scaled mod d;
            m = (if 2 * r < d then f
                 else if d < 2 * r then f + 1
                 else if even f then f else f + 1)
        in of_nat m / 2 ^ (j + 52))"

definition digits_value :: "string \<Rightarrow> nat" where
  "digits_value ds = foldl (\<lambda>acc c. 10 * acc + (of_char c - 48)) 0 ds"

definition float_of_literal :: "string \<Rightarrow> rat" where
  "float_of_literal lit =
     (let ip = takeWhile is_digit lit;
          fp = drop (length ip + 1) lit
      in to_double (digits_value ip * 10 ^ length fp + digits_value fp) (10 ^ length fp))"

definition point_eight :: rat where
  "point_eight = to_double 8 10"

definition relevance_score :: "exn + string \<Rightarrow> rat" where
  "relevance_score reply =
     (case reply of
        Inr score_response \<Rightarrow>
          (case score_search score_response of
             Some m \<Rightarrow> float_of_literal m
           | None \<Rightarrow> 1 / 2)
      | Inl e \<Rightarrow> 1 / 2)"

text \<open>
  \<open>planner_node\<close>, first half: the tool order is determined when the state has none.
  \<open>Inl\<close> is the early \<open>return\<close> of the out-of-scope answer, \<open>Inr\<close> falls through to
  the adequacy check. Any exception of the two model calls is caught by the
  \<open>except Exception\<close> that installs the default order.
\<close>

definition default_order :: "agent_state \<Rightarrow> agent_state" where
  "default_order s =
     s\<lparr>selected_tool_order := [0, 1, 2], current_tool_index := 0, tools_attempted := []\<rparr>"

definition set_order :: "agent_state \<Rightarrow> tool_response \<Rightarrow> nat list \<Rightarrow> agent_state" where
  "set_order s response tool_order =
     s\<lparr>selected_tool_order := tool_order, current_tool_index := 0, tools_attempted := [],
       tool_calls_made :=
         AList.update ''planner'' (map tc_name (tool_calls response)) (tool_calls_made s)\<rparr>"

definition determine_tool_order :: "world \<Rightarrow> agent_state \<Rightarrow> agent_state + agent_state" where
  "determine_tool_order w s =
     (case ordering_call w of
        Inl e \<Rightarrow> Inr (default_order s)
      | Inr response \<Rightarrow>
          (let tool_order = collect_tool_order (tool_calls response) []
           in if tool_order = [] then
                (case scope_call w of
                   Inl e \<Rightarrow> Inr (default_order s)
                 | Inr answer \<Rightarrow>
                     (let is_related = py_upper (py_strip answer)
                      in if py_in ''NO'' is_related then
                           Inl (s\<lparr>error_message := Some (out_of_scope_msg (user_query s)),
                                  planner_reasoning := ''Out-of-scope query filtered.'',
                                  workflow_complete := True\<rparr>)
                         else Inr (set_order s response [0, 1, 2])))
              else Inr (set_order s response (add_remaining [0, 1, 2] tool_order))))"

text \<open>\<open>planner_node\<close>, second half: the adequacy check of the category under the cursor.\<close>

definition check_category :: "world \<Rightarrow> agent_state \<Rightarrow> exn + agent_state" where
  "check_category w s =
     (let current_idx = current_tool_index s;
          tool_order = selected_tool_order s;
          attempted = tools_attempted s
      in if current_idx \<ge> length tool_order then
           Inr (s\<lparr>error_message := Some exhausted_msg,
                  planner_reasoning :=
                    ''All available table categories were checked but none were relevant.'',
                  workflow_complete := True\<rparr>)
         else
           (let tool_idx = tool_order ! current_idx
            in case CATEGORY_MAP tool_idx of
                 None \<Rightarrow> Inl (KeyError ''CATEGORY_MAP'')
               | Some info \<Rightarrow>
                   (let score = relevance_score (relevance_call w current_idx);
                        is_satisfactory = (score \<ge> point_eight)
                    in Inr (s\<lparr>selected_tables := Some (tables info),
                              selected_category := Some (name info),
                              tables_satisfactory := is_satisfactory,
                              planner_reasoning :=
                                ''Analyzed '' @ name info @ '' (Score: '' @ fmt_2f w score @ '')'',
                              tools_attempted := attempted @ [tool_idx],
                              current_tool_index :=
                                current_idx + (if is_satisfactory then 0 else 1)\<rparr>))))"

definition planner_node :: "world \<Rightarrow> agent_state \<Rightarrow> exn + agent_state" where
  "planner_node w s =
     (if selected_tool_order s = [] then
        (case determine_tool_order w s of
           Inl returned \<Rightarrow> Inr returned
         | Inr s1 \<Rightarrow> check_category w s1)
      else check_category w s)"

section \<open>SQL generation agent\<close>

text \<open>
  \<open>sql_generation_node\<close>. \<open>format_table_schemas\<close> iterates over \<open>selected_tables\<close>
  before the \<open>try\<close>, so a state without tables raises out of the node. In the
  \<open>except\<close> branch only the error, the validity flag and the counter are written.
\<close>

definition sql_generation_node :: "world \<Rightarrow> agent_state \<Rightarrow> exn + agent_state" where
  "sql_generation_node w s =
     (case selected_tables s of
        None \<Rightarrow> Inl (TypeError ''NoneType object is not iterable'')
      | Some ts \<Rightarrow>
          (let attempt_num = sql_generation_attempts s + 1
           in case generation_call w (sql_generation_attempts s) of
                Inr raw \<Rightarrow>
                  (let sql_query = clean_sql raw;
                       is_valid = validate_sql_syntax (sqlparse w) sql_query;
                       s1 = s\<lparr>generated_sql := Some sql_query,
                              sql_valid := is_valid,
                              sql_generation_attempts := attempt_num,
                              sql_history := sql_history s @ [sql_query]\<rparr>
                   in if \<not> is_valid then
                        Inr (s1\<lparr>sql_generation_error := Some ''SQL syntax validation failed''\<rparr>)
                      else
                        Inr (s1\<lparr>sql_generation_error := None, needs_regeneration := False\<rparr>))
              | Inl e \<Rightarrow>
                  Inr (s\<lparr>sql_generation_error := Some (''SQL generation error: '' @ str_exn e),
                         sql_valid := False,
                         sql_generation_attempts := attempt_num\<rparr>)))"

section \<open>Evaluation agent\<close>

definition auto_approved :: "string \<Rightarrow> eval_result" where
  "auto_approved fb =
     \<lparr>passed = True, ev_accuracy_score = 9 / 10, optimization_score = 8 / 10,
      feedback = fb, suggestions = []\<rparr>"

definition evaluation_node :: "world \<Rightarrow> agent_state \<Rightarrow> agent_state" where
  "evaluation_node w s =
     (let sql_query = generated_sql s
      in case evaluation_call w (sql_generation_attempts s) of
           Eval_judgment ev \<Rightarrow>
             (let s1 = s\<lparr>evaluation_result := Some ev,
                         accuracy_score := ev_accuracy_score ev,
                         optimization_suggestions := suggestions ev,
                         needs_regeneration := (\<not> passed ev)\<rparr>
              in if passed ev then s1\<lparr>final_sql := sql_query, workflow_complete := True\<rparr>
                 else s1)
         | Eval_not_json \<Rightarrow>
             s\<lparr>evaluation_result :=
                 Some (auto_approved ''Auto-approved due to evaluation parsing error''),
               final_sql := sql_query,
               workflow_complete := True\<rparr>
         | Eval_raises e \<Rightarrow>
             s\<lparr>evaluation_result :=
                 Some (auto_approved (''Auto-approved due to error: '' @ str_exn e)),
               final_sql := sql_query,
               workflow_complete := True\<rparr>)"

section \<open>Error node and conditional edges\<close>

definition apology_msg :: string where
  "apology_msg =
     ''I apologize, but I couldn't find any relevant tables or generate a valid query for that specific request.''"

definition error_node :: "agent_state \<Rightarrow> agent_state" where
  "error_node s =
     (let s1 = (if error_message s = None \<or> error_message s = Some [] then
                  (if truthy (sql_generation_error s) then
                     s\<lparr>error_message :=
                         Some (''SQL Generation failed: '' @ the (sql_generation_error s))\<rparr>
                   else s\<lparr>error_message := Some apology_msg\<rparr>)
                else s)
      in s1\<lparr>workflow_complete := True\<rparr>)"

datatype route = R_planner | R_sql_generation | R_evaluation | R_error | R_end

definition should_continue_planner :: "agent_state \<Rightarrow> route" where
  "should_continue_planner s =
     (if workflow_complete s then R_error
      else if tables_satisfactory s then R_sql_generation
      else if current_tool_index s < length (selected_tool_order s) then R_planner
      else R_error)"

definition should_retry_sql :: "agent_state \<Rightarrow> route" where
  "should_retry_sql s =
     (if sql_valid s then R_evaluation
      else (let attempts = sql_generation_attempts s
            in if attempts < 2 then R_sql_generation else R_error))"

text \<open>
  \<open>should_regenerate_sql\<close> writes to the state at the regeneration cap, so it returns
  the state with the route. \<open>state["evaluation_result"]["feedback"]\<close> raises on the empty
  dict.
\<close>

definition quality_warning :: "string \<Rightarrow> string" where
  "quality_warning fb = ''SQL generated but with quality concerns: '' @ fb"

definition should_regenerate_sql :: "agent_state \<Rightarrow> exn + route \<times> agent_state" where
  "should_regenerate_sql s =
     (if workflow_complete s then Inr (R_end, s)
      else if needs_regeneration s then
        (if sql_generation_attempts s \<ge> 4 then
           (case evaluation_result s of
              None \<Rightarrow> Inl (KeyError ''feedback'')
            | Some ev \<Rightarrow>
                Inr (R_end, s\<lparr>final_sql := generated_sql s,
                              error_message := Some (quality_warning (feedback ev)),
                              workflow_complete := True\<rparr>))
         else Inr (R_sql_generation, s))
      else Inr (R_end, s))"

section \<open>The compiled graph and the entry point\<close>

text \<open>
  The graph of \<open>create_nlp_to_sql_graph\<close>. The graph owns the state: a node is called
  with the current state and what it returns is written back key by key; a conditional
  edge is called with the state and only the route it returns is used.

  \<open>sql_generation_node\<close>, \<open>evaluation_node\<close> and \<open>error_node\<close> return the dict they were
  given, so all their writes are kept. \<open>planner_node\<close> returns a fresh dict:
  \<open>apply_planner_return\<close> writes the keys that its returned dicts have (lines 492-496,
  531-535 and 565-572) and the entry made inside the \<open>tool_calls_made\<close> dict (line 513,
  the dict object is shared). \<open>selected_tool_order\<close> is in none of the returned dicts, so
  the assignments of lines 506 and 520 are lost and the graph state keeps the order it
  had. \<open>should_regenerate_sql\<close> is an edge: the graph takes its route and drops the
  state it wrote to (lines 867-869). An exception leaving a node or an edge ends the run
  with that exception.
\<close>

definition apply_planner_return :: "agent_state \<Rightarrow> agent_state \<Rightarrow> agent_state" where
  "apply_planner_return g s' =
     g\<lparr>selected_tables := selected_tables s',
       selected_category := selected_category s',
       tables_satisfactory := tables_satisfactory s',
       planner_reasoning := planner_reasoning s',
       tools_attempted := tools_attempted s',
       current_tool_index := current_tool_index s',
       error_message := error_message s',
       workflow_complete := workflow_complete s',
       tool_calls_made := tool_calls_made s'\<rparr>"

definition loop_measure :: "route \<Rightarrow> agent_state \<Rightarrow> nat" where
  "loop_measure r s =
     (case r of
        R_end \<Rightarrow> 0
      | R_error \<Rightarrow> 1
      | R_evaluation \<Rightarrow>
          (if sql_generation_attempts s < 4 then 2 * (5 - sql_generation_attempts s) + 3 else 1)
      | R_sql_generation \<Rightarrow> 2 * (5 - sql_generation_attempts s) + 2
      | R_planner \<Rightarrow> 20 + (length (selected_tool_order s) - current_tool_index s))"

function graph_loop :: "world \<Rightarrow> route \<Rightarrow> agent_state \<Rightarrow> exn + agent_state" where
  "graph_loop w R_planner g =
     (case planner_node w g of
        Inl e \<Rightarrow> Inl e
      | Inr s' \<Rightarrow>
          graph_loop w (should_continue_planner (apply_planner_return g s'))
            (apply_planner_return g s'))"
| "graph_loop w R_sql_generation g =
     (case sql_generation_node w g of
        Inl e \<Rightarrow> Inl e
      | Inr g' \<Rightarrow> graph_loop w (should_retry_sql g') g')"
| "graph_loop w R_evaluation g =
     (case should_regenerate_sql (evaluation_node w g) of
        Inl e \<Rightarrow> Inl e
      | Inr (r, written) \<Rightarrow> graph_loop w r (evaluation_node w g))"
| "graph_loop w R_error g = Inr (error_node g)"
| "graph_loop w R_end g = Inr g"
  by pat_completeness auto

text \<open>\<open>run_nlp_to_sql\<close>: the initial state, the run of the graph, the result dict.\<close>

definition initial_state :: "string \<Rightarrow> agent_state" where
  "initial_state q =
     \<lparr>user_query = q,
      selected_tool_order = [],
      current_tool_index = 0,
      tools_attempted = [],
      selected_tables = None,
      selected_category = None,
      tables_satisfactory = False,
      planner_reasoning = [],
      generated_sql = None,
      sql_generation_attempts = 0,
      sql_generation_error = None,
      sql_valid = False,
      sql_history = [],
      evaluation_result = None,
      optimization_suggestions = [],
      accuracy_score = 0,
      needs_regeneration = False,
      tool_calls_made = [],
      final_sql = None,
      error_message = None,
      workflow_complete = False\<rparr>"

definition invoke :: "world \<Rightarrow> string \<Rightarrow> exn + agent_state" where
  "invoke w q = graph_loop w R_planner (initial_state q)"

text \<open>
  \<open>reach w q r g\<close>: in the run on query \<open>q\<close>, the graph is about to enter \<open>r\<close> with
  state \<open>g\<close> (\<open>R_end\<close>: the run has ended with \<open>g\<close>).
\<close>

inductive reach :: "world \<Rightarrow> string \<Rightarrow> route \<Rightarrow> agent_state \<Rightarrow> bool" for w q where
  reach_start: "reach w q R_planner (initial_state q)"
| reach_planner:
    "reach w q R_planner g \<Longrightarrow> planner_node w g = Inr s' \<Longrightarrow>
       reach w q (should_continue_planner (apply_planner_return g s')) (apply_planner_return g s')"
| reach_generation:
    "reach w q R_sql_generation g \<Longrightarrow> sql_generation_node w g = Inr g' \<Longrightarrow>
       reach w q (should_retry_sql g') g'"
| reach_evaluation:
    "reach w q R_evaluation g \<Longrightarrow> should_regenerate_sql (evaluation_node w g) = Inr (r, written) \<Longrightarrow>
       reach w q r (evaluation_node w g)"
| reach_error:
    "reach w q R_error g \<Longrightarrow> reach w q R_end (error_node g)"

text \<open>
  The result dict. A key that the dict does not have is \<open>None\<close>: \<open>out_sql\<close> exists
  only in the success dict and \<open>out_error\<close> only in the failure dict; the other keys are
  in both.
\<close>

record run_output =
  success :: bool
  out_sql :: "string option"
  out_error :: "string option"
  out_category :: "string option"
  out_tool_order :: "string list"
  out_evaluation :: "eval_result option"
  out_planner_reasoning :: string
  out_attempts :: nat
  out_sql_history :: "string list"
  out_tool_calls_made :: "(string \<times> string list) list"

definition unable_msg :: string where
  "unable_msg =
     ''I was unable to find relevant information or generate a valid query for your request.''"

definition tool_order_names :: "nat list \<Rightarrow> string list" where
  "tool_order_names order =
     map (\<lambda>i. name (the (CATEGORY_MAP i))) (filter (\<lambda>i. CATEGORY_MAP i \<noteq> None) order)"

definition format_result :: "agent_state \<Rightarrow> run_output" where
  "format_result result =
     (let common = \<lparr>success = False,
                     out_sql = None,
                     out_error = None,
                     out_category = selected_category result,
                     out_tool_order = tool_order_names (selected_tool_order result),
                     out_evaluation = evaluation_result result,
                     out_planner_reasoning = planner_reasoning result,
                     out_attempts = sql_generation_attempts result,
                     out_sql_history = sql_history result,
                     out_tool_calls_made = tool_calls_made result\<rparr>
      in if truthy (final_sql result) then
           common\<lparr>success := True, out_sql := final_sql result\<rparr>
         else
           common\<lparr>success := False,
                  out_error := Some (if truthy (error_message result)
                                     then the (error_message result) else unable_msg)\<rparr>)"

definition run_nlp_to_sql :: "world \<Rightarrow> string \<Rightarrow> exn + run_output" where
  "run_nlp_to_sql w q =
     (case invoke w q of
        Inl e \<Rightarrow> Inl e
      | Inr result \<Rightarrow> Inr (format_result result))"

section \<open>Notions of the specification\<close>

text \<open>
  De-duplication preserving first-occurrence order, and the natural identifier order,
  as the specification words them; the planner's loops are compared with them.
\<close>

fun dedup_first :: "nat list \<Rightarrow> nat list" where
  "dedup_first [] = []"
| "dedup_first (x # xs) = x # dedup_first (filter (\<lambda>y. y \<noteq> x) xs)"

definition natural_order :: "nat list" where
  "natural_order = [0, 1, 2]"

definition invoked_categories :: "tool_call list \<Rightarrow> nat list" where
  "invoked_categories tcs = List.map_filter (\<lambda>tc. tool_name_to_index (tc_name tc)) tcs"

section \<open>Concrete inputs\<close>

text \<open>Client configurations.\<close>

definition only_mistral :: llm_client where
  "only_mistral = \<lparr>primary_api_key = None, mistral_api_key = Some ''m-key''\<rparr>"

definition no_backend :: llm_client where
  "no_backend = \<lparr>primary_api_key = None, mistral_api_key = Some []\<rparr>"

definition both_backends :: llm_client where
  "both_backends = \<lparr>primary_api_key = Some ''g-key'', mistral_api_key = Some ''m-key''\<rparr>"

definition only_primary :: llm_client where
  "only_primary = \<lparr>primary_api_key = Some ''g-key'', mistral_api_key = None\<rparr>"

text \<open>
  Worlds. In \<open>world_ok\<close> the planner's call names the customer category, every
  adequacy answer is 0.9, every generation answer is a SELECT statement and every
  judgment passes; the parsing library is absent, so the basic validation is used. The
  other worlds change one kind of answer.
\<close>

definition sample_fmt :: "rat \<Rightarrow> string" where
  "sample_fmt r =
     (if r = to_double 9 10 then ''0.90'' else if r = to_double 3 10 then ''0.30'' else ''0.50'')"

definition passing_judgment :: eval_result where
  "passing_judgment =
     \<lparr>passed = True, ev_accuracy_score = 95 / 100, optimization_score = 85 / 100,
      feedback = ''Looks good'', suggestions = []\<rparr>"

definition failing_judgment :: eval_result where
  "failing_judgment =
     \<lparr>passed = False, ev_accuracy_score = 6 / 10, optimization_score = 5 / 10,
      feedback = ''Wrong join'', suggestions = [''Join orders'']\<rparr>"

definition world_ok :: world where
  "world_ok =
     \<lparr>ordering_call = Inr \<lparr>content = None,
                            tool_calls = [\<lparr>tc_id = ''call_1'',
                                           tc_name = ''get_customer_sales_tables'',
                                           tc_arguments = ''{}''\<rparr>]\<rparr>,
      scope_call = Inr ''yes'',
      relevance_call = (\<lambda>i. Inr ''0.9''),
      generation_call = (\<lambda>n. Inr ''SELECT customer_id FROM customers''),
      evaluation_call = (\<lambda>n. Eval_judgment passing_judgment),
      sqlparse = None,
      fmt_2f = sample_fmt\<rparr>"

definition world_eval_fails :: world where
  "world_eval_fails = world_ok\<lparr>evaluation_call := (\<lambda>n. Eval_judgment failing_judgment)\<rparr>"

definition world_not_json :: world where
  "world_not_json = world_ok\<lparr>evaluation_call := (\<lambda>n. Eval_not_json)\<rparr>"


definition world_drop_table :: world where
  "world_drop_table = world_ok\<lparr>generation_call := (\<lambda>n. Inr ''DROP TABLE customers;'')\<rparr>"

definition world_gen_raises :: world where
  "world_gen_raises =
     world_ok\<lparr>generation_call := (\<lambda>n. Inl (ValueError both_failed_msg))\<rparr>"

text \<open>The first category rated gets 0.3, any later one would get 0.9.\<close>

definition world_low_then_high :: world where
  "world_low_then_high =
     world_ok\<lparr>relevance_call := (\<lambda>i. if i = 0 then Inr ''0.3'' else Inr ''0.9'')\<rparr>"

definition no_tools :: tool_response where
  "no_tools = \<lparr>content = Some ''I cannot help with that.'', tool_calls = []\<rparr>"

definition world_out_of_scope :: world where
  "world_out_of_scope = world_ok\<lparr>ordering_call := Inr no_tools, scope_call := Inr ''No.''\<rparr>"

definition world_yes_i_know :: world where
  "world_yes_i_know =
     world_ok\<lparr>ordering_call := Inr no_tools, scope_call := Inr ''Yes, I know this one''\<rparr>"

definition world_unknown :: world where
  "world_unknown = world_ok\<lparr>ordering_call := Inr no_tools, scope_call := Inr ''Unknown''\<rparr>"



text \<open>
  The planner's call names the inventory category, an unknown tool, the customer
  category and the inventory category again.
\<close>

definition world_two_tools :: world where
  "world_two_tools =
     world_ok\<lparr>ordering_call :=
       Inr \<lparr>content = None,
            tool_calls =
              [\<lparr>tc_id = ''call_1'', tc_name = ''get_inventory_products_tables'', tc_arguments = ''{}''\<rparr>,
               \<lparr>tc_id = ''call_2'', tc_name = ''get_weather'', tc_arguments = ''{}''\<rparr>,
               \<lparr>tc_id = ''call_3'', tc_name = ''get_customer_sales_tables'', tc_arguments = ''{}''\<rparr>,
               \<lparr>tc_id = ''call_4'', tc_name = ''get_inventory_products_tables'', tc_arguments = ''{}''\<rparr>]\<rparr>\<rparr>"

section \<open>What holds along a run\<close>

text \<open>
  \<open>exactly_one\<close>: one of \<open>final_sql\<close> and \<open>error_message\<close> is set and the other is not.
  \<open>run_inv r g\<close> is what holds of the graph state \<open>g\<close> of a run started by
  \<open>run_nlp_to_sql\<close> when the graph is about to enter \<open>r\<close>. The graph state never has a
  category order, since \<open>planner_node\<close> does not return one.
\<close>

definition order_ok :: "nat list \<Rightarrow> bool" where
  "order_ok order = (distinct order \<and> set order = {0, 1, 2})"

definition exactly_one :: "agent_state \<Rightarrow> bool" where
  "exactly_one g = (truthy (final_sql g) \<noteq> truthy (error_message g))"

definition not_finished :: "agent_state \<Rightarrow> bool" where
  "not_finished g =
     (final_sql g = None \<and> error_message g = None \<and> \<not> workflow_complete g \<and>
      selected_tool_order g = [])"

definition run_inv :: "route \<Rightarrow> agent_state \<Rightarrow> bool" where
  "run_inv r g =
     (case r of
        R_planner \<Rightarrow> not_finished g
      | R_sql_generation \<Rightarrow> not_finished g \<and> selected_tables g \<noteq> None
      | R_evaluation \<Rightarrow>
          not_finished g \<and> selected_tables g \<noteq> None \<and> truthy (generated_sql g)
      | R_error \<Rightarrow>
          final_sql g = None \<and> selected_tool_order g = [] \<and>
          (if workflow_complete g then truthy (error_message g) else error_message g = None)
      | R_end \<Rightarrow>
          selected_tool_order g = [] \<and>
          (if workflow_complete g then exactly_one g
           else final_sql g = None \<and> error_message g = None))"

text \<open>
  \<open>checked w s info\<close> is the state \<open>planner_node\<close> leaves after rating the category
  \<open>info\<close> under the cursor.
\<close>

definition checked :: "world \<Rightarrow> agent_state \<Rightarrow> category_info \<Rightarrow> agent_state" where
  "checked w s info =
     s\<lparr>selected_tables := Some (tables info),
       selected_category := Some (name info),
       tables_satisfactory :=
         (relevance_score (relevance_call w (current_tool_index s)) \<ge> point_eight),
       planner_reasoning :=
         ''Analyzed '' @ name info @ '' (Score: '' @
           fmt_2f w (relevance_score (relevance_call w (current_tool_index s))) @ '')'',
       tools_attempted :=
         tools_attempted s @ [selected_tool_order s ! current_tool_index s],
       current_tool_index :=
         current_tool_index s +
           (if relevance_score (relevance_call w (current_tool_index s)) \<ge> point_eight
            then 0 else 1)\<rparr>"

text \<open>The error message of a run that ends on an invalid candidate.\<close>

definition syntax_failed :: string where
  "syntax_failed = ''SQL Generation failed: SQL syntax validation failed''"

section \<open>Every run of the graph ends\<close>

text \<open>
  The planner loops only while the cursor advances below the length of the order that
  the graph state has, a
  generation pass always increments the attempt counter, and the evaluation edge
  returns to generation only below four attempts: \<open>loop_measure\<close> decreases along
  every edge.
\<close>

lemma check_category_order:
  "check_category w s = Inr s' \<Longrightarrow> selected_tool_order s' = selected_tool_order s"
  by (auto simp: check_category_def Let_def split: if_splits option.splits)

lemma check_category_loops:
  assumes "check_category w s = Inr s'" "should_continue_planner s' = R_planner"
  shows "current_tool_index s' = current_tool_index s + 1 \<and> current_tool_index s < length (selected_tool_order s)"
  using assms
  by (auto simp: check_category_def should_continue_planner_def Let_def split: if_splits option.splits)

lemma collect_tool_order_bound:
  "distinct acc \<Longrightarrow> set acc \<subseteq> {0, 1, 2} \<Longrightarrow>
     distinct (collect_tool_order tcs acc) \<and> set (collect_tool_order tcs acc) \<subseteq> {0, 1, 2}"
proof (induction tcs arbitrary: acc)
  case Nil
  then show ?case by simp
next
  case (Cons tc tcs)
  show ?case
  proof (cases "tool_name_to_index (tc_name tc)")
    case None
    then show ?thesis using Cons by simp
  next
    case (Some idx)
    then have "idx \<in> {0, 1, 2}"
      by (auto simp: tool_name_to_index_def split: if_splits)
    then show ?thesis using Some Cons.prems Cons.IH [of "acc @ [idx]"] Cons.IH [of acc]
      by auto
  qed
qed

lemma add_remaining_set:
  "set (add_remaining is acc) = set is \<union> set acc"
  by (induction "is" arbitrary: acc) auto

lemma add_remaining_distinct:
  "distinct acc \<Longrightarrow> distinct (add_remaining is acc)"
  by (induction "is" arbitrary: acc) auto

lemma distinct_subset_012_length:
  assumes "distinct (xs :: nat list)" "set xs \<subseteq> {0, 1, 2}"
  shows "length xs \<le> 3"
proof -
  have "card (set xs) \<le> card {0::nat, 1, 2}"
    using assms(2) by (intro card_mono) auto
  then show ?thesis using assms(1) by (simp add: distinct_card)
qed

lemma final_order_perm:
  "distinct (add_remaining [0, 1, 2] (collect_tool_order tcs []))
   \<and> set (add_remaining [0, 1, 2] (collect_tool_order tcs [])) = {0, 1, 2}"
proof -
  have c: "distinct (collect_tool_order tcs []) \<and> set (collect_tool_order tcs []) \<subseteq> {0, 1, 2}"
    using collect_tool_order_bound [of "[]" tcs] by simp
  have "set (add_remaining [0, 1, 2] (collect_tool_order tcs [])) = {0, 1, 2} \<union> set (collect_tool_order tcs [])"
    unfolding add_remaining_set by simp
  then show ?thesis using c add_remaining_distinct [of "collect_tool_order tcs []" "[0, 1, 2]"]
    by blast
qed

lemma determine_tool_order_Inr:
  assumes "determine_tool_order w s = Inr s1"
  shows "current_tool_index s1 = 0 \<and> distinct (selected_tool_order s1)
         \<and> set (selected_tool_order s1) = {0, 1, 2}"
proof -
  have "s1 = default_order s \<or> (\<exists>r. s1 = set_order s r [0, 1, 2])
        \<or> (\<exists>r. s1 = set_order s r (add_remaining [0, 1, 2] (collect_tool_order (tool_calls r) [])))"
    using assms
    by (auto simp: determine_tool_order_def Let_def split: sum.splits if_splits)
  then show ?thesis
    using final_order_perm
    by (auto simp: default_order_def set_order_def simp del: add_remaining.simps)
qed

lemma planner_node_order:
  "selected_tool_order s \<noteq> [] \<Longrightarrow> planner_node w s = Inr s'
     \<Longrightarrow> selected_tool_order s' = selected_tool_order s"
  using check_category_order by (simp add: planner_node_def)

lemma apply_planner_return_route:
  "should_continue_planner (apply_planner_return g s') =
     (if workflow_complete s' then R_error
      else if tables_satisfactory s' then R_sql_generation
      else if current_tool_index s' < length (selected_tool_order g) then R_planner
      else R_error)"
  by (simp add: should_continue_planner_def apply_planner_return_def)

lemma planner_measure:
  assumes "planner_node w g = Inr s'"
    "should_continue_planner (apply_planner_return g s') = R_planner"
  shows "loop_measure R_planner (apply_planner_return g s') < loop_measure R_planner g"
proof (cases "selected_tool_order g = []")
  case True
  then show ?thesis using assms(2)
    by (simp add: apply_planner_return_route split: if_splits)
next
  case False
  then have c: "check_category w g = Inr s'" using assms(1) by (simp add: planner_node_def)
  have "\<not> workflow_complete s' \<and> \<not> tables_satisfactory s' \<and>
        current_tool_index s' < length (selected_tool_order g)"
    using assms(2) unfolding apply_planner_return_route by (simp split: if_splits)
  then have r: "should_continue_planner s' = R_planner"
    using check_category_order [OF c] by (simp add: should_continue_planner_def)
  show ?thesis
    using check_category_loops [OF c r]
    by (auto simp: loop_measure_def apply_planner_return_def)
qed

lemma sql_generation_attempts_step:
  "sql_generation_node w s = Inr s' \<Longrightarrow> sql_generation_attempts s' = sql_generation_attempts s + 1"
  by (auto simp: sql_generation_node_def Let_def split: option.splits sum.splits if_splits)

lemma evaluation_node_attempts:
  "sql_generation_attempts (evaluation_node w s) = sql_generation_attempts s"
  by (auto simp: evaluation_node_def Let_def split: eval_reply.splits)

lemma should_regenerate_sql_route:
  assumes "should_regenerate_sql s = Inr (r, s')"
  shows "r = R_end \<or> (r = R_sql_generation \<and> s' = s \<and> sql_generation_attempts s < 4)"
  using assms by (auto simp: should_regenerate_sql_def split: if_splits option.splits)

lemma should_continue_planner_cases:
  "should_continue_planner s \<in> {R_planner, R_sql_generation, R_error}"
  by (simp add: should_continue_planner_def)

lemma should_retry_sql_cases:
  "should_retry_sql s = R_evaluation \<or> should_retry_sql s = R_error
   \<or> (should_retry_sql s = R_sql_generation \<and> sql_generation_attempts s < 2)"
  by (simp add: should_retry_sql_def)

termination graph_loop
proof (relation "measure (\<lambda>(w, r, g). loop_measure r g)")
  show "wf (measure (\<lambda>(w, r, g). loop_measure r g))" by simp
next
  fix w g s'
  assume p: "planner_node w g = Inr s'"
  let ?g = "apply_planner_return g s'"
  consider "should_continue_planner ?g = R_planner" | "should_continue_planner ?g = R_sql_generation"
    | "should_continue_planner ?g = R_error"
    using should_continue_planner_cases [of ?g] by auto
  then show "((w, should_continue_planner ?g, ?g), (w, R_planner, g))
               \<in> measure (\<lambda>(w, r, g). loop_measure r g)"
  proof cases
    case 1
    then show ?thesis using planner_measure [OF p 1] by simp
  next
    case 2
    then show ?thesis by (simp add: loop_measure_def)
  next
    case 3
    then show ?thesis by (simp add: loop_measure_def)
  qed
next
  fix w g g'
  assume n: "sql_generation_node w g = Inr g'"
  show "((w, should_retry_sql g', g'), (w, R_sql_generation, g))
          \<in> measure (\<lambda>(w, r, g). loop_measure r g)"
    using should_retry_sql_cases [of g'] sql_generation_attempts_step [OF n]
    by (auto simp: loop_measure_def)
next
  fix w g x r written
  assume "should_regenerate_sql (evaluation_node w g) = Inr x" "(r, written) = x"
  then have "should_regenerate_sql (evaluation_node w g) = Inr (r, written)" by simp
  from should_regenerate_sql_route [OF this]
  show "((w, r, evaluation_node w g), (w, R_evaluation, g))
          \<in> measure (\<lambda>(w, r, g). loop_measure r g)"
    by (auto simp: loop_measure_def evaluation_node_attempts)
qed

section \<open>Invariants of the graph\<close>

text \<open>
  A property that every node and edge hands on to the next route holds at the end of
  the run, and the run ends without an exception.
\<close>

lemma graph_loop_rule:
  assumes P: "\<And>g. I R_planner g \<Longrightarrow>
                \<exists>s'. planner_node w g = Inr s' \<and>
                     I (should_continue_planner (apply_planner_return g s'))
                       (apply_planner_return g s')"
    and G: "\<And>g. I R_sql_generation g \<Longrightarrow>
                \<exists>g'. sql_generation_node w g = Inr g' \<and> I (should_retry_sql g') g'"
    and E: "\<And>g. I R_evaluation g \<Longrightarrow>
                \<exists>r written. should_regenerate_sql (evaluation_node w g) = Inr (r, written) \<and>
                     I r (evaluation_node w g)"
    and X: "\<And>g. I R_error g \<Longrightarrow> I R_end (error_node g)"
    and start: "I r g"
  shows "\<exists>g'. graph_loop w r g = Inr g' \<and> I R_end g'"
proof -
  have "w0 = w \<Longrightarrow> I r g \<Longrightarrow> \<exists>g'. graph_loop w0 r g = Inr g' \<and> I R_end g'" for w0
  proof (induction w0 r g rule: graph_loop.induct)
    case (1 w0 g)
    from P [OF "1.prems"(2)] obtain s' where
      s': "planner_node w0 g = Inr s'"
        "I (should_continue_planner (apply_planner_return g s')) (apply_planner_return g s')"
      using "1.prems"(1) by blast
    from "1.IH" [OF s'(1) "1.prems"(1) s'(2)] show ?case using s'(1) by simp
  next
    case (2 w0 g)
    from G [OF "2.prems"(2)] obtain g' where
      g': "sql_generation_node w0 g = Inr g'" "I (should_retry_sql g') g'"
      using "2.prems"(1) by blast
    from "2.IH" [OF g'(1) "2.prems"(1) g'(2)] show ?case using g'(1) by simp
  next
    case (3 w0 g)
    from E [OF "3.prems"(2)] obtain r written where
      e: "should_regenerate_sql (evaluation_node w0 g) = Inr (r, written)"
        "I r (evaluation_node w0 g)"
      using "3.prems"(1) by blast
    from "3.IH" [OF e(1) refl "3.prems"(1) e(2)] show ?case using e(1) by simp
  next
    case (4 w0 g)
    then show ?case using X by simp
  next
    case (5 w0 g)
    then show ?case by simp
  qed
  then show ?thesis using start by simp
qed

section \<open>The invariant of a run\<close>

lemma validate_sql_syntax_nonempty: "validate_sql_syntax sp sql \<Longrightarrow> sql \<noteq> []"
  by (auto simp: validate_sql_syntax_def)

lemma order_ok_lookup:
  assumes "order_ok order" "i < length order"
  shows "\<exists>info. CATEGORY_MAP (order ! i) = Some info"
proof -
  have "order ! i \<in> {0, 1, 2}" using assms nth_mem [of i order] by (auto simp: order_ok_def)
  then show ?thesis by (auto simp: CATEGORY_MAP_def)
qed

lemma determine_tool_order_Inl:
  assumes "determine_tool_order w s = Inl r"
  shows "r = s\<lparr>error_message := Some (out_of_scope_msg (user_query s)),
               planner_reasoning := ''Out-of-scope query filtered.'',
               workflow_complete := True\<rparr>"
  using assms by (auto simp: determine_tool_order_def Let_def split: sum.splits if_splits)

lemma determine_tool_order_frame:
  assumes "determine_tool_order w s = Inr s1"
  shows "final_sql s1 = final_sql s \<and> error_message s1 = error_message s
         \<and> workflow_complete s1 = workflow_complete s"
  using assms
  by (auto simp: determine_tool_order_def default_order_def set_order_def Let_def
        split: sum.splits if_splits)

lemma check_category_step:
  assumes "order_ok (selected_tool_order s)"
    "current_tool_index s < length (selected_tool_order s)"
  shows "\<exists>info. CATEGORY_MAP (selected_tool_order s ! current_tool_index s) = Some info \<and>
           check_category w s = Inr (checked w s info)"
proof -
  obtain info where "CATEGORY_MAP (selected_tool_order s ! current_tool_index s) = Some info"
    using order_ok_lookup [OF assms] by blast
  then show ?thesis using assms(2) by (simp add: check_category_def checked_def Let_def)
qed

lemma out_of_scope_msg_truthy: "truthy (Some (out_of_scope_msg q))"
  by (simp add: truthy_def out_of_scope_msg_def cross_mark_def)

lemma apology_msg_truthy: "truthy (Some apology_msg)"
  by (simp add: truthy_def apology_msg_def)

lemma planner_first_pass:
  assumes "selected_tool_order g = []" "determine_tool_order w g = Inr s1"
  shows "\<exists>info. CATEGORY_MAP (selected_tool_order s1 ! 0) = Some info \<and>
           planner_node w g = Inr (checked w s1 info) \<and> current_tool_index s1 = 0"
proof -
  have o: "order_ok (selected_tool_order s1)" "current_tool_index s1 = 0"
    using determine_tool_order_Inr [OF assms(2)] by (auto simp: order_ok_def)
  then have l: "current_tool_index s1 < length (selected_tool_order s1)"
    by (auto simp: order_ok_def)
  obtain info where i: "CATEGORY_MAP (selected_tool_order s1 ! current_tool_index s1) = Some info"
      "check_category w s1 = Inr (checked w s1 info)"
    using check_category_step [OF o(1) l, of w] by blast
  have "planner_node w g = Inr (checked w s1 info)"
    using assms i(2) by (simp add: planner_node_def)
  then show ?thesis using i(1) o(2) by auto
qed

lemma planner_inv:
  assumes "run_inv R_planner g"
  shows "\<exists>s'. planner_node w g = Inr s' \<and>
           run_inv (should_continue_planner (apply_planner_return g s')) (apply_planner_return g s')"
proof -
  have nf: "not_finished g" using assms by (simp add: run_inv_def)
  then have e: "selected_tool_order g = []" by (simp add: not_finished_def)
  show ?thesis
  proof (cases "determine_tool_order w g")
    case (Inl r)
    have p: "planner_node w g = Inr r" using e Inl by (simp add: planner_node_def)
    have rt: "should_continue_planner (apply_planner_return g r) = R_error"
      using determine_tool_order_Inl [OF Inl] by (simp add: apply_planner_return_route)
    have "run_inv R_error (apply_planner_return g r)"
      using nf determine_tool_order_Inl [OF Inl] out_of_scope_msg_truthy [of "user_query g"]
      by (simp add: run_inv_def not_finished_def apply_planner_return_def)
    then show ?thesis using p rt by auto
  next
    case (Inr s1)
    obtain info where p: "planner_node w g = Inr (checked w s1 info)"
      using planner_first_pass [OF e Inr] by blast
    have f: "error_message s1 = None" "\<not> workflow_complete s1"
      using nf determine_tool_order_frame [OF Inr] by (auto simp: not_finished_def)
    let ?g' = "apply_planner_return g (checked w s1 info)"
    have rt: "should_continue_planner ?g' =
                (if tables_satisfactory (checked w s1 info) then R_sql_generation else R_error)"
      using f e by (simp add: apply_planner_return_route checked_def)
    have a: "run_inv R_sql_generation ?g'"
      using nf f by (simp add: run_inv_def not_finished_def apply_planner_return_def checked_def)
    have b: "run_inv R_error ?g'"
      using nf f by (simp add: run_inv_def not_finished_def apply_planner_return_def checked_def)
    have "run_inv (should_continue_planner ?g') ?g'"
      using rt a b by simp
    then show ?thesis using p by blast
  qed
qed

lemma generation_inv:
  assumes "run_inv R_sql_generation g"
  shows "\<exists>g'. sql_generation_node w g = Inr g' \<and> run_inv (should_retry_sql g') g'"
proof -
  obtain ts where ts: "selected_tables g = Some ts"
    using assms by (auto simp: run_inv_def)
  have nf: "not_finished g" using assms by (simp add: run_inv_def)
  show ?thesis
  proof (cases "generation_call w (sql_generation_attempts g)")
    case (Inl e)
    then show ?thesis using ts nf
      by (simp add: sql_generation_node_def should_retry_sql_def run_inv_def not_finished_def)
  next
    case (Inr raw)
    show ?thesis
    proof (cases "validate_sql_syntax (sqlparse w) (clean_sql raw)")
      case True
      then have ne: "clean_sql raw \<noteq> []" by (rule validate_sql_syntax_nonempty)
      show ?thesis using True ne Inr ts nf
        by (simp add: sql_generation_node_def Let_def should_retry_sql_def run_inv_def
              not_finished_def truthy_def)
    next
      case False
      then show ?thesis using Inr ts nf
        by (simp add: sql_generation_node_def Let_def should_retry_sql_def run_inv_def
              not_finished_def)
    qed
  qed
qed

lemma evaluation_inv:
  assumes "run_inv R_evaluation g"
  shows "\<exists>r written. should_regenerate_sql (evaluation_node w g) = Inr (r, written) \<and>
           run_inv r (evaluation_node w g)"
proof (cases "evaluation_call w (sql_generation_attempts g)")
  case (Eval_raises e)
  then show ?thesis using assms
    by (auto simp: evaluation_node_def should_regenerate_sql_def run_inv_def not_finished_def
          exactly_one_def truthy_def)
next
  case Eval_not_json
  then show ?thesis using assms
    by (auto simp: evaluation_node_def should_regenerate_sql_def run_inv_def not_finished_def
          exactly_one_def truthy_def)
next
  case (Eval_judgment ev)
  show ?thesis
  proof (cases "passed ev")
    case True
    then show ?thesis using assms Eval_judgment
      by (auto simp: evaluation_node_def should_regenerate_sql_def run_inv_def not_finished_def
            exactly_one_def truthy_def)
  next
    case False
    then show ?thesis using assms Eval_judgment
      by (auto simp: evaluation_node_def should_regenerate_sql_def run_inv_def not_finished_def
            Let_def)
  qed
qed

lemma error_inv:
  assumes "run_inv R_error g"
  shows "run_inv R_end (error_node g)"
  using assms
  by (auto simp: error_node_def run_inv_def exactly_one_def truthy_def apology_msg_def Let_def
        split: if_splits)

lemma initial_inv: "run_inv R_planner (initial_state q)"
  by (simp add: run_inv_def not_finished_def initial_state_def)

lemma reach_inv: "reach w q r g \<Longrightarrow> run_inv r g"
proof (induction rule: reach.induct)
  case reach_start
  show ?case by (rule initial_inv)
next
  case (reach_planner g s')
  then show ?case using planner_inv [of g w] by auto
next
  case (reach_generation g g')
  then show ?case using generation_inv [of g w] by auto
next
  case (reach_evaluation g r written)
  then show ?case using evaluation_inv [of g w] by auto
next
  case (reach_error g)
  then show ?case using error_inv by blast
qed

lemma invoke_reach: "\<exists>res. invoke w q = Inr res \<and> reach w q R_end res"
proof -
  let ?I = "\<lambda>r g. reach w q r g"
  have P: "\<exists>s'. planner_node w g = Inr s' \<and>
             ?I (should_continue_planner (apply_planner_return g s')) (apply_planner_return g s')"
    if "?I R_planner g" for g
    using that planner_inv [OF reach_inv [OF that]] reach_planner [OF that] by blast
  have G: "\<exists>g'. sql_generation_node w g = Inr g' \<and> ?I (should_retry_sql g') g'"
    if "?I R_sql_generation g" for g
    using that generation_inv [OF reach_inv [OF that]] reach_generation [OF that] by blast
  have E: "\<exists>r written. should_regenerate_sql (evaluation_node w g) = Inr (r, written) \<and>
             ?I r (evaluation_node w g)"
    if "?I R_evaluation g" for g
    using that evaluation_inv [OF reach_inv [OF that]] reach_evaluation [OF that] by blast
  have X: "?I R_end (error_node g)" if "?I R_error g" for g
    using that reach_error by blast
  show ?thesis
    using graph_loop_rule [of ?I w, OF P G E X reach_start] by (simp add: invoke_def)
qed


section \<open>The planner's order\<close>

lemma collect_tool_order_dedup:
  "collect_tool_order tcs acc
     = acc @ dedup_first (filter (\<lambda>i. i \<notin> set acc) (invoked_categories tcs))"
proof (induction tcs arbitrary: acc)
  case Nil
  then show ?case by (simp add: invoked_categories_def List.map_filter_simps)
next
  case (Cons tc tcs)
  show ?case
  proof (cases "tool_name_to_index (tc_name tc)")
    case None
    then show ?thesis using Cons.IH [of acc]
      by (simp add: invoked_categories_def List.map_filter_simps)
  next
    case (Some idx)
    have fuse: "filter (\<lambda>i. i \<notin> set (acc @ [idx])) xs
                  = filter (\<lambda>y. y \<noteq> idx) (filter (\<lambda>i. i \<notin> set acc) xs)" for xs
      by (induction xs) auto
    show ?thesis
    proof (cases "idx \<in> set acc")
      case True
      then show ?thesis using Some Cons.IH [of acc]
        by (simp add: invoked_categories_def List.map_filter_simps)
    next
      case False
      then show ?thesis using Some Cons.IH [of "acc @ [idx]"] fuse
        by (simp add: invoked_categories_def List.map_filter_simps)
    qed
  qed
qed

lemma add_remaining_natural:
  "add_remaining [0, 1, 2] acc = acc @ filter (\<lambda>i. i \<notin> set acc) natural_order"
  by (simp add: natural_order_def)

lemma determine_tool_order_shape:
  assumes "determine_tool_order w s = Inr s1"
  shows "selected_tool_order s1 =
           (case ordering_call w of
              Inl e \<Rightarrow> natural_order
            | Inr resp \<Rightarrow>
                (let named = dedup_first (invoked_categories (tool_calls resp))
                 in named @ filter (\<lambda>i. i \<notin> set named) natural_order))"
proof (cases "ordering_call w")
  case (Inl e)
  then show ?thesis using assms
    by (auto simp: determine_tool_order_def default_order_def natural_order_def)
next
  case (Inr resp)
  have c: "collect_tool_order (tool_calls resp) [] = dedup_first (invoked_categories (tool_calls resp))"
    using collect_tool_order_dedup [of "tool_calls resp" "[]"] by simp
  show ?thesis
  proof (cases "collect_tool_order (tool_calls resp) [] = []")
    case True
    then have "selected_tool_order s1 = [0, 1, 2]"
      using assms Inr
      by (auto simp: determine_tool_order_def default_order_def set_order_def Let_def
            split: sum.splits if_splits)
    then show ?thesis using Inr True c by (simp add: natural_order_def)
  next
    case False
    then have "selected_tool_order s1 = add_remaining [0, 1, 2] (collect_tool_order (tool_calls resp) [])"
      using assms Inr
      by (auto simp: determine_tool_order_def set_order_def Let_def)
    then show ?thesis using Inr c add_remaining_natural by (simp add: Let_def)
  qed
qed

lemma order_ok_mset: "order_ok order \<Longrightarrow> mset order = mset natural_order"
proof -
  assume "order_ok order"
  then have "distinct order" "set order = set natural_order"
    by (auto simp: order_ok_def natural_order_def)
  moreover have "distinct natural_order" by (simp add: natural_order_def)
  ultimately show ?thesis using set_eq_iff_mset_eq_distinct by blast
qed

section \<open>Generation passes\<close>

lemma generation_invalid_step:
  assumes "selected_tables s \<noteq> None" "generation_call w (sql_generation_attempts s) = Inr raw"
    "\<not> validate_sql_syntax (sqlparse w) (clean_sql raw)"
  shows "sql_generation_node w s =
           Inr (s\<lparr>generated_sql := Some (clean_sql raw),
                  sql_valid := False,
                  sql_generation_attempts := sql_generation_attempts s + 1,
                  sql_history := sql_history s @ [clean_sql raw],
                  sql_generation_error := Some ''SQL syntax validation failed''\<rparr>)"
  using assms by (auto simp: sql_generation_node_def Let_def)

section \<open>Claims\<close>

text \<open>
  C1. At every point of every run, when the completion latch is true, exactly one of
  \<open>final_sql\<close> and \<open>error_message\<close> is set; and every run ends, without an exception.
  (A run that stops at the regeneration cap ends with the latch false and neither field
  set: what \<open>should_regenerate_sql\<close> writes there is dropped by the graph.)
\<close>

theorem C1_latch_exactly_one:
  "(reach w q r g \<and> workflow_complete g \<longrightarrow> exactly_one g)
   \<and> (\<exists>res. invoke w q = Inr res \<and> reach w q R_end res)"
proof (intro conjI impI)
  assume a: "reach w q r g \<and> workflow_complete g"
  then have "run_inv r g" using reach_inv by blast
  then show "exactly_one g" using a
    by (cases r) (auto simp: run_inv_def not_finished_def exactly_one_def truthy_def)
next
  show "\<exists>res. invoke w q = Inr res \<and> reach w q R_end res" by (rule invoke_reach)
qed

theorem C1_latch_exactly_one_witness:
  "reach world_ok ''top customers'' R_end (projr (invoke world_ok ''top customers'')) \<and>
   workflow_complete (projr (invoke world_ok ''top customers'')) \<and>
   exactly_one (projr (invoke world_ok ''top customers'')) \<and>
   final_sql (projr (invoke world_ok ''top customers''))
     = Some ''SELECT customer_id FROM customers'' \<and>
   error_message (projr (invoke world_ok ''top customers'')) = None \<and>
   reach world_out_of_scope ''employees'' R_end (projr (invoke world_out_of_scope ''employees'')) \<and>
   workflow_complete (projr (invoke world_out_of_scope ''employees'')) \<and>
   exactly_one (projr (invoke world_out_of_scope ''employees'')) \<and>
   final_sql (projr (invoke world_out_of_scope ''employees'')) = None \<and>
   error_message (projr (invoke world_out_of_scope ''employees''))
     = Some (out_of_scope_msg ''employees'')"
proof -
  let ?a = "projr (invoke world_ok ''top customers'')"
  let ?b = "projr (invoke world_out_of_scope ''employees'')"
  obtain ra where ra: "invoke world_ok ''top customers'' = Inr ra"
      "reach world_ok ''top customers'' R_end ra"
    using C1_latch_exactly_one [of world_ok "''top customers''"] by blast
  obtain rb where rb: "invoke world_out_of_scope ''employees'' = Inr rb"
      "reach world_out_of_scope ''employees'' R_end rb"
    using C1_latch_exactly_one [of world_out_of_scope "''employees''"] by blast
  have a1: "reach world_ok ''top customers'' R_end ?a" using ra by simp
  have b1: "reach world_out_of_scope ''employees'' R_end ?b" using rb by simp
  have a2: "workflow_complete ?a" by code_simp
  have b2: "workflow_complete ?b" by code_simp
  have a3: "exactly_one ?a"
    using C1_latch_exactly_one [of world_ok "''top customers''" R_end ?a] a1 a2 by blast
  have b3: "exactly_one ?b"
    using C1_latch_exactly_one [of world_out_of_scope "''employees''" R_end ?b] b1 b2 by blast
  have a4: "final_sql ?a = Some ''SELECT customer_id FROM customers'' \<and> error_message ?a = None"
    by code_simp
  have b4: "final_sql ?b = None \<and> error_message ?b = Some (out_of_scope_msg ''employees'')"
    by code_simp
  show ?thesis using a1 a2 a3 a4 b1 b2 b3 b4 by blast
qed

text \<open>
  C2 at its failing input: every judgment fails and the attempt counter reaches 4.
  \<open>should_regenerate_sql\<close> does stop there and writes the candidate, the quality warning
  and the latch to the state it was given, but it is a conditional edge and the graph
  keeps only its route: the run ends with the latch false and neither \<open>final_sql\<close> nor
  \<open>error_message\<close> set, and the result has \<open>success = False\<close>, no \<open>sql\<close>, and the generic
  error of \<open>run_nlp_to_sql\<close>, with no warning.
\<close>

theorem C2_cap_reports_failure:
  "\<not> isl (run_nlp_to_sql world_eval_fails ''top customers'') \<and>
   \<not> success (projr (run_nlp_to_sql world_eval_fails ''top customers'')) \<and>
   out_sql (projr (run_nlp_to_sql world_eval_fails ''top customers'')) = None \<and>
   out_error (projr (run_nlp_to_sql world_eval_fails ''top customers'')) = Some unable_msg \<and>
   out_attempts (projr (run_nlp_to_sql world_eval_fails ''top customers'')) = 4 \<and>
   out_evaluation (projr (run_nlp_to_sql world_eval_fails ''top customers''))
     = Some failing_judgment \<and>
   \<not> workflow_complete (projr (invoke world_eval_fails ''top customers'')) \<and>
   final_sql (projr (invoke world_eval_fails ''top customers'')) = None \<and>
   error_message (projr (invoke world_eval_fails ''top customers'')) = None \<and>
   should_regenerate_sql (projr (invoke world_eval_fails ''top customers''))
     = Inr (R_end,
            (projr (invoke world_eval_fails ''top customers''))
              \<lparr>final_sql := Some ''SELECT customer_id FROM customers'',
               error_message := Some (quality_warning ''Wrong join''),
               workflow_complete := True\<rparr>)"
  by code_simp




text \<open>
  C4, as the code has it. For \<open>generate\<close>, \<open>generate_with_tools\<close> and \<open>chat\<close>: when the primary
  backend is not configured it is skipped and only the Mistral backend is called; when
  neither is configured the call raises at once, having called no backend; when both are
  configured and both fail, the backends are called in order and the exception that
  reaches the caller is the Mistral backend's own exception, re-raised unchanged: the
  primary's cause is printed and dropped. When the primary fails and Mistral is not
  configured, the generic error is raised with neither cause.
\<close>

theorem C4_provider_failover:
  "(\<not> primary_client c \<and> truthy (mistral_api_key c) \<longrightarrow>
      generate c p m = ([Mistral], m) \<and>
      generate_with_tools c tp tm = ([Mistral], map_sum id to_result tm) \<and>
      chat c tp tm = ([Mistral], map_sum id to_chat_result tm))
   \<and> (\<not> primary_client c \<and> \<not> truthy (mistral_api_key c) \<longrightarrow>
      generate c p m = ([], Inl (ValueError both_failed_msg)) \<and>
      generate_with_tools c tp tm = ([], Inl (ValueError both_failed_msg)) \<and>
      chat c tp tm = ([], Inl (ValueError both_failed_msg)))
   \<and> (primary_client c \<and> truthy (mistral_api_key c) \<longrightarrow>
      generate c (Inl e1) (Inl e2) = ([Primary, Mistral], Inl e2) \<and>
      generate_with_tools c (Inl e1) (Inl e2) = ([Primary, Mistral], Inl e2) \<and>
      chat c (Inl e1) (Inl e2) = ([Primary, Mistral], Inl e2))
   \<and> (primary_client c \<and> \<not> truthy (mistral_api_key c) \<longrightarrow>
      generate c (Inl e1) m = ([Primary], Inl (ValueError both_failed_msg)) \<and>
      generate_with_tools c (Inl e1) tm = ([Primary], Inl (ValueError both_failed_msg)) \<and>
      chat c (Inl e1) tm = ([Primary], Inl (ValueError both_failed_msg)))"
  by (auto simp: generate_def generate_with_tools_def chat_def Let_def split: sum.splits)

theorem C4_provider_failover_witness:
  "(\<not> primary_client only_mistral \<and> truthy (mistral_api_key only_mistral)) \<and>
   generate only_mistral (Inr ''unused'') (Inr ''SELECT 1'') = ([Mistral], Inr ''SELECT 1'') \<and>
   (\<not> primary_client no_backend \<and> \<not> truthy (mistral_api_key no_backend)) \<and>
   generate no_backend (Inr ''unused'') (Inr ''unused'') = ([], Inl (ValueError both_failed_msg)) \<and>
   (primary_client both_backends \<and> truthy (mistral_api_key both_backends)) \<and>
   generate both_backends (Inl (ApiError ''timeout'')) (Inl (ApiError ''quota''))
     = ([Primary, Mistral], Inl (ApiError ''quota'')) \<and>
   (primary_client only_primary \<and> \<not> truthy (mistral_api_key only_primary)) \<and>
   generate only_primary (Inl (ApiError ''timeout'')) (Inr ''unused'')
     = ([Primary], Inl (ValueError both_failed_msg))"
  using C4_provider_failover [of only_mistral "Inr ''unused''" "Inr ''SELECT 1''"]
        C4_provider_failover [of no_backend "Inr ''unused''" "Inr ''unused''"]
        C4_provider_failover [of both_backends _ _ _ _ "ApiError ''timeout''" "ApiError ''quota''"]
        C4_provider_failover [of only_primary _ "Inr ''unused''" _ _ "ApiError ''timeout''"]
  by (simp add: only_mistral_def no_backend_def both_backends_def only_primary_def
        primary_client_def truthy_def)

text \<open>
  C4 as stated fails: with both backends failing, the error that reaches the caller is
  the same whatever the primary's cause was, so it does not carry both causes.
\<close>

theorem C4_both_causes_counterexample:
  "snd (generate both_backends (Inl (ApiError ''primary timeout'')) (Inl (ApiError ''mistral quota'')))
     = Inl (ApiError ''mistral quota'') \<and>
   snd (generate both_backends (Inl (ApiError ''primary refused'')) (Inl (ApiError ''mistral quota'')))
     = Inl (ApiError ''mistral quota'') \<and>
   snd (generate_with_tools both_backends (Inl (ApiError ''primary timeout'')) (Inl (ApiError ''mistral quota'')))
     = Inl (ApiError ''mistral quota'') \<and>
   snd (chat both_backends (Inl (ApiError ''primary timeout'')) (Inl (ApiError ''mistral quota'')))
     = Inl (ApiError ''mistral quota'')"
  by (simp add: generate_def generate_with_tools_def chat_def both_backends_def primary_client_def
        truthy_def)

text \<open>
  C5. Whenever the planner, entered without an order, leaves one in the state, that
  order is a permutation of all category identifiers: the identifiers of the invoked
  tools (calls of unknown tools are skipped), de-duplicated preserving first-occurrence
  order, followed by the identifiers not mentioned, in natural order. When the ordering
  call fails, it is the natural order itself.
\<close>

theorem C5_category_order_permutation:
  assumes "selected_tool_order s = []" "planner_node w s = Inr s'" "selected_tool_order s' \<noteq> []"
  shows "mset (selected_tool_order s') = mset natural_order \<and>
         selected_tool_order s' =
           (case ordering_call w of
              Inl e \<Rightarrow> natural_order
            | Inr resp \<Rightarrow>
                (let named = dedup_first (invoked_categories (tool_calls resp))
                 in named @ filter (\<lambda>i. i \<notin> set named) natural_order))"
proof (cases "determine_tool_order w s")
  case (Inl r)
  then have "s' = r" using assms(1,2) by (simp add: planner_node_def)
  then have "selected_tool_order s' = []"
    using determine_tool_order_Inl [OF Inl] assms(1) by simp
  then show ?thesis using assms(3) by simp
next
  case (Inr s1)
  then have c: "check_category w s1 = Inr s'" using assms(1,2) by (simp add: planner_node_def)
  have eq: "selected_tool_order s' = selected_tool_order s1"
    using check_category_order [OF c] .
  have "order_ok (selected_tool_order s1)"
    using determine_tool_order_Inr [OF Inr] by (simp add: order_ok_def)
  then show ?thesis using eq order_ok_mset determine_tool_order_shape [OF Inr] by simp
qed

theorem C5_category_order_permutation_witness:
  "selected_tool_order (initial_state ''stock of top customers'') = [] \<and>
   \<not> isl (planner_node world_two_tools (initial_state ''stock of top customers'')) \<and>
   selected_tool_order (projr (planner_node world_two_tools (initial_state ''stock of top customers'')))
     = [1, 0, 2] \<and>
   mset (selected_tool_order (projr (planner_node world_two_tools (initial_state ''stock of top customers''))))
     = mset natural_order"
proof -
  let ?s = "initial_state ''stock of top customers''"
  let ?p = "planner_node world_two_tools ?s"
  have a: "selected_tool_order ?s = []" by (simp add: initial_state_def)
  have b: "\<not> isl ?p" by code_simp
  then have b': "?p = Inr (projr ?p)" by (cases ?p) auto
  have c: "selected_tool_order (projr ?p) = [1, 0, 2]" by code_simp
  then have c': "selected_tool_order (projr ?p) \<noteq> []" by simp
  have m: "mset (selected_tool_order (projr ?p)) = mset natural_order"
    using C5_category_order_permutation [OF a b' c'] by blast
  show ?thesis using a b c m by blast
qed

text \<open>
  C6 at its failing input: the ordering call returns no tool invocation and the scope
  call answers "Yes, I know this one", an affirmative answer. Upper-cased it contains
  \<open>NO\<close> (in KNOW), so the test \<open>"NO" in is_related\<close> of line 491 takes it for a negative
  answer: the run ends with the scope error, no category examined and an empty
  \<open>tool_order\<close>, instead of falling back to the natural order. The ambiguous answer
  "Unknown" is rejected in the same way.
\<close>

theorem C6_affirmative_answer_rejected:
  "ordering_call world_yes_i_know = Inr no_tools \<and> tool_calls no_tools = [] \<and>
   scope_call world_yes_i_know = Inr ''Yes, I know this one'' \<and>
   py_upper (py_strip ''Yes, I know this one'') = ''YES, I KNOW THIS ONE'' \<and>
   \<not> isl (run_nlp_to_sql world_yes_i_know ''top customers'') \<and>
   \<not> success (projr (run_nlp_to_sql world_yes_i_know ''top customers'')) \<and>
   out_error (projr (run_nlp_to_sql world_yes_i_know ''top customers''))
     = Some (out_of_scope_msg ''top customers'') \<and>
   out_tool_order (projr (run_nlp_to_sql world_yes_i_know ''top customers'')) = [] \<and>
   tools_attempted (projr (invoke world_yes_i_know ''top customers'')) = [] \<and>
   scope_call world_unknown = Inr ''Unknown'' \<and>
   out_error (projr (run_nlp_to_sql world_unknown ''top customers''))
     = Some (out_of_scope_msg ''top customers'')"
  by code_simp

text \<open>
  C7 at its failing input: the planner builds the order \<open>[0, 1, 2]\<close>, the first category
  is rated 0.3 and the second would be rated 0.9. The planner records category 0 and
  advances the cursor to 1, but the order it built is not in the dict it returns, so the
  graph state has no order, \<open>should_continue_planner\<close> finds \<open>1 < 0\<close> false and goes to
  the error node: the run ends in error after one category, with two categories never
  rated, one of them adequate.
\<close>

theorem C7_stops_after_first_category:
  "selected_tool_order (projr (planner_node world_low_then_high (initial_state ''stock levels'')))
     = [0, 1, 2] \<and>
   relevance_score (relevance_call world_low_then_high 0) < point_eight \<and>
   point_eight \<le> relevance_score (relevance_call world_low_then_high 1) \<and>
   \<not> isl (invoke world_low_then_high ''stock levels'') \<and>
   tools_attempted (projr (invoke world_low_then_high ''stock levels'')) = [0] \<and>
   current_tool_index (projr (invoke world_low_then_high ''stock levels'')) = 1 \<and>
   selected_tool_order (projr (invoke world_low_then_high ''stock levels'')) = [] \<and>
   workflow_complete (projr (invoke world_low_then_high ''stock levels'')) \<and>
   error_message (projr (invoke world_low_then_high ''stock levels'')) = Some apology_msg \<and>
   \<not> success (projr (run_nlp_to_sql world_low_then_high ''stock levels'')) \<and>
   out_tool_order (projr (run_nlp_to_sql world_low_then_high ''stock levels'')) = []"
  by code_simp

text \<open>
  C8. The graph enters generation with the attempt counter at 0, tables selected and
  neither a final SQL nor an error message. When the first two generation answers are
  invalid candidates, the first pass sets the counter to 1 and the edge returns to
  generation, the second pass sets it to 2 and the edge goes to the error node, and the
  run ends with both candidates in \<open>sql_history\<close>, no final SQL, and the syntax failure
  as error message: \<open>success = False\<close>. In any pass, an invalid candidate increments
  the counter, and the edge returns to generation iff the counter is then below 2.
\<close>

theorem C8_syntax_retry_cap:
  assumes "selected_tables s \<noteq> None" "sql_generation_attempts s = 0"
    "final_sql s = None" "\<not> truthy (error_message s)"
    "generation_call w 0 = Inr raw0" "\<not> validate_sql_syntax (sqlparse w) (clean_sql raw0)"
    "generation_call w 1 = Inr raw1" "\<not> validate_sql_syntax (sqlparse w) (clean_sql raw1)"
  shows "(\<exists>s1. sql_generation_node w s = Inr s1 \<and> sql_generation_attempts s1 = 1 \<and>
               should_retry_sql s1 = R_sql_generation \<and>
               (\<exists>s2. sql_generation_node w s1 = Inr s2 \<and> sql_generation_attempts s2 = 2 \<and>
                     should_retry_sql s2 = R_error))
         \<and> (\<exists>r. graph_loop w R_sql_generation s = Inr r \<and> workflow_complete r \<and>
               sql_generation_attempts r = 2 \<and>
               sql_history r = sql_history s @ [clean_sql raw0, clean_sql raw1] \<and>
               final_sql r = None \<and> error_message r = Some syntax_failed \<and>
               \<not> success (format_result r) \<and> out_error (format_result r) = Some syntax_failed)
         \<and> (selected_tables x \<noteq> None \<and>
              generation_call w (sql_generation_attempts x) = Inr raw \<and>
              \<not> validate_sql_syntax (sqlparse w) (clean_sql raw) \<longrightarrow>
              (\<exists>x'. sql_generation_node w x = Inr x' \<and> \<not> sql_valid x' \<and>
                    sql_generation_attempts x' = sql_generation_attempts x + 1 \<and>
                    should_retry_sql x' =
                      (if sql_generation_attempts x + 1 < 2 then R_sql_generation else R_error)))"
proof -
  let ?s1 = "s\<lparr>generated_sql := Some (clean_sql raw0),
                  sql_valid := False,
                  sql_generation_attempts := sql_generation_attempts s + 1,
                  sql_history := sql_history s @ [clean_sql raw0],
                  sql_generation_error := Some ''SQL syntax validation failed''\<rparr>"
  let ?s2 = "?s1\<lparr>generated_sql := Some (clean_sql raw1),
                  sql_valid := False,
                  sql_generation_attempts := sql_generation_attempts ?s1 + 1,
                  sql_history := sql_history ?s1 @ [clean_sql raw1],
                  sql_generation_error := Some ''SQL syntax validation failed''\<rparr>"
  have g1: "sql_generation_node w s = Inr ?s1"
    using generation_invalid_step [of s w raw0] assms by simp
  have a1: "sql_generation_attempts ?s1 = 1" using assms(2) by simp
  have g2: "sql_generation_node w ?s1 = Inr ?s2"
    using generation_invalid_step [of ?s1 w raw1] assms a1 by simp
  have r1: "should_retry_sql ?s1 = R_sql_generation"
    using assms(2) by (simp add: should_retry_sql_def)
  have r2: "should_retry_sql ?s2 = R_error"
    using assms(2) by (simp add: should_retry_sql_def)
  have e: "error_node ?s2 = ?s2\<lparr>error_message := Some syntax_failed, workflow_complete := True\<rparr>"
    using assms(4) by (auto simp: error_node_def truthy_def syntax_failed_def Let_def)
  have loop: "graph_loop w R_sql_generation s
                = Inr (?s2\<lparr>error_message := Some syntax_failed, workflow_complete := True\<rparr>)"
    using g1 g2 r1 r2 e by simp
  have first: "\<exists>s1. sql_generation_node w s = Inr s1 \<and> sql_generation_attempts s1 = 1 \<and>
               should_retry_sql s1 = R_sql_generation \<and>
               (\<exists>s2. sql_generation_node w s1 = Inr s2 \<and> sql_generation_attempts s2 = 2 \<and>
                     should_retry_sql s2 = R_error)"
    using g1 g2 r1 r2 a1 assms(2) by auto
  have t: "truthy (Some syntax_failed)" by (simp add: truthy_def syntax_failed_def)
  have last: "\<exists>r. graph_loop w R_sql_generation s = Inr r \<and> workflow_complete r \<and>
               sql_generation_attempts r = 2 \<and>
               sql_history r = sql_history s @ [clean_sql raw0, clean_sql raw1] \<and>
               final_sql r = None \<and> error_message r = Some syntax_failed \<and>
               \<not> success (format_result r) \<and> out_error (format_result r) = Some syntax_failed"
    using loop assms(2,3) t by (simp add: format_result_def truthy_def Let_def)
  have general: "selected_tables x \<noteq> None \<and>
              generation_call w (sql_generation_attempts x) = Inr raw \<and>
              \<not> validate_sql_syntax (sqlparse w) (clean_sql raw) \<longrightarrow>
              (\<exists>x'. sql_generation_node w x = Inr x' \<and> \<not> sql_valid x' \<and>
                    sql_generation_attempts x' = sql_generation_attempts x + 1 \<and>
                    should_retry_sql x' =
                      (if sql_generation_attempts x + 1 < 2 then R_sql_generation else R_error))"
    using generation_invalid_step [of x w raw] by (auto simp: should_retry_sql_def)
  show ?thesis using first last general by blast
qed


theorem C8_syntax_retry_cap_witness:
  "selected_tables (projr (planner_node world_drop_table (initial_state ''all customers''))) \<noteq> None \<and>
   sql_generation_attempts (projr (planner_node world_drop_table (initial_state ''all customers''))) = 0 \<and>
   generation_call world_drop_table 0 = Inr ''DROP TABLE customers;'' \<and>
   \<not> validate_sql_syntax (sqlparse world_drop_table) (clean_sql ''DROP TABLE customers;'') \<and>
   generation_call world_drop_table 1 = Inr ''DROP TABLE customers;'' \<and>
   should_retry_sql (projr (sql_generation_node world_drop_table
            (projr (planner_node world_drop_table (initial_state ''all customers'')))))
     = R_sql_generation \<and>
   \<not> isl (graph_loop world_drop_table R_sql_generation
            (projr (planner_node world_drop_table (initial_state ''all customers'')))) \<and>
   error_message (projr (graph_loop world_drop_table R_sql_generation
            (projr (planner_node world_drop_table (initial_state ''all customers'')))))
     = Some syntax_failed \<and>
   \<not> success (projr (run_nlp_to_sql world_drop_table ''all customers'')) \<and>
   out_error (projr (run_nlp_to_sql world_drop_table ''all customers'')) = Some syntax_failed \<and>
   out_sql_history (projr (run_nlp_to_sql world_drop_table ''all customers''))
     = [''DROP TABLE customers;'', ''DROP TABLE customers;'']"
proof -
  let ?s = "projr (planner_node world_drop_table (initial_state ''all customers''))"
  have h1: "selected_tables ?s \<noteq> None" by code_simp
  have h2: "sql_generation_attempts ?s = 0" by code_simp
  have h3: "final_sql ?s = None" by code_simp
  have h4: "\<not> truthy (error_message ?s)" by code_simp
  have h5: "generation_call world_drop_table 0 = Inr ''DROP TABLE customers;''"
    by (simp add: world_drop_table_def)
  have h6: "\<not> validate_sql_syntax (sqlparse world_drop_table) (clean_sql ''DROP TABLE customers;'')"
    by code_simp
  have h7: "generation_call world_drop_table 1 = Inr ''DROP TABLE customers;''"
    by (simp add: world_drop_table_def)
  note t = C8_syntax_retry_cap [OF h1 h2 h3 h4 h5 h6 h7 h6, of ?s "''DROP TABLE customers;''"]
  obtain r where r: "graph_loop world_drop_table R_sql_generation ?s = Inr r"
      "error_message r = Some syntax_failed"
    using t by blast
  have h5': "generation_call world_drop_table (sql_generation_attempts ?s)
               = Inr ''DROP TABLE customers;''"
    by (simp add: world_drop_table_def)
  obtain x' where x': "sql_generation_node world_drop_table ?s = Inr x'"
      "should_retry_sql x' =
         (if sql_generation_attempts ?s + 1 < 2 then R_sql_generation else R_error)"
    using t h1 h5' h6 by blast
  have again: "should_retry_sql (projr (sql_generation_node world_drop_table ?s)) = R_sql_generation"
    using x' h2 by simp
  have run: "\<not> success (projr (run_nlp_to_sql world_drop_table ''all customers'')) \<and>
     out_error (projr (run_nlp_to_sql world_drop_table ''all customers'')) = Some syntax_failed \<and>
     out_sql_history (projr (run_nlp_to_sql world_drop_table ''all customers''))
       = [''DROP TABLE customers;'', ''DROP TABLE customers;'']"
    by code_simp
  show ?thesis using h1 h2 h5 h6 h7 r again run by simp
qed

text \<open>
  C9. When the judgment cannot be parsed as JSON, the evaluation step approves the
  candidate: the run ends from there with the candidate as \<open>final_sql\<close>, the latch true
  and the feedback recording the automatic approval. The result has \<open>success = True\<close>
  whenever the candidate is a non-empty text, which every candidate that passed
  validation is.
\<close>

theorem C9_unparseable_judgment_approved:
  assumes "evaluation_call w (sql_generation_attempts s) = Eval_not_json"
    "truthy (generated_sql s)"
  shows "graph_loop w R_evaluation s =
           Inr (s\<lparr>evaluation_result :=
                    Some (auto_approved ''Auto-approved due to evaluation parsing error''),
                  final_sql := generated_sql s,
                  workflow_complete := True\<rparr>)
         \<and> (\<exists>r. graph_loop w R_evaluation s = Inr r \<and> workflow_complete r \<and>
                  final_sql r = generated_sql s \<and> error_message r = error_message s \<and>
                  success (format_result r) \<and> out_sql (format_result r) = generated_sql s \<and>
                  out_error (format_result r) = None \<and>
                  map_option feedback (out_evaluation (format_result r))
                    = Some ''Auto-approved due to evaluation parsing error'')"
proof -
  let ?r = "s\<lparr>evaluation_result :=
                    Some (auto_approved ''Auto-approved due to evaluation parsing error''),
                  final_sql := generated_sql s,
                  workflow_complete := True\<rparr>"
  have e: "evaluation_node w s = ?r" using assms(1) by (simp add: evaluation_node_def)
  have g: "graph_loop w R_evaluation s = Inr ?r"
    using e by (simp add: should_regenerate_sql_def)
  show ?thesis using g assms(2)
    by (simp add: format_result_def auto_approved_def Let_def)
qed

theorem C9_unparseable_judgment_approved_witness:
  "evaluation_call world_not_json 1 = Eval_not_json \<and>
   sql_generation_attempts (projr (sql_generation_node world_not_json
     (projr (planner_node world_not_json (initial_state ''top customers''))))) = 1 \<and>
   truthy (generated_sql (projr (sql_generation_node world_not_json
     (projr (planner_node world_not_json (initial_state ''top customers'')))))) \<and>
   workflow_complete (projr (graph_loop world_not_json R_evaluation
     (projr (sql_generation_node world_not_json
       (projr (planner_node world_not_json (initial_state ''top customers''))))))) \<and>
   success (projr (run_nlp_to_sql world_not_json ''top customers'')) \<and>
   out_sql (projr (run_nlp_to_sql world_not_json ''top customers''))
     = Some ''SELECT customer_id FROM customers'' \<and>
   map_option feedback (out_evaluation (projr (run_nlp_to_sql world_not_json ''top customers'')))
     = Some ''Auto-approved due to evaluation parsing error''"
proof -
  let ?s = "projr (sql_generation_node world_not_json
              (projr (planner_node world_not_json (initial_state ''top customers''))))"
  have a: "sql_generation_attempts ?s = 1" by code_simp
  have h1: "evaluation_call world_not_json (sql_generation_attempts ?s) = Eval_not_json"
    by (simp add: world_not_json_def)
  have h1': "evaluation_call world_not_json 1 = Eval_not_json"
    by (simp add: world_not_json_def)
  have h2: "truthy (generated_sql ?s)" by code_simp
  obtain r where r: "graph_loop world_not_json R_evaluation ?s = Inr r" "workflow_complete r"
    using C9_unparseable_judgment_approved [OF h1 h2] by blast
  have run: "success (projr (run_nlp_to_sql world_not_json ''top customers'')) \<and>
     out_sql (projr (run_nlp_to_sql world_not_json ''top customers''))
       = Some ''SELECT customer_id FROM customers'' \<and>
     map_option feedback (out_evaluation (projr (run_nlp_to_sql world_not_json ''top customers'')))
       = Some ''Auto-approved due to evaluation parsing error''"
    by code_simp
  show ?thesis using a h1' h2 r run by simp
qed

text \<open>
  C10. A generation pass whose provider call raises increments the attempt counter,
  sets the generation error and clears the validity flag, and writes nothing else:
  \<open>sql_history\<close> and \<open>generated_sql\<close> are unchanged. So a run can end with fewer entries
  in \<open>sql_history\<close> than attempts.
\<close>

theorem C10_generation_failure_frame:
  assumes "selected_tables s \<noteq> None"
    "generation_call w (sql_generation_attempts s) = Inl e"
  shows "sql_generation_node w s =
           Inr (s\<lparr>sql_generation_error := Some (''SQL generation error: '' @ str_exn e),
                  sql_valid := False,
                  sql_generation_attempts := sql_generation_attempts s + 1\<rparr>)
         \<and> (\<exists>s'. sql_generation_node w s = Inr s' \<and>
                  sql_generation_attempts s' = sql_generation_attempts s + 1 \<and>
                  sql_generation_error s' = Some (''SQL generation error: '' @ str_exn e) \<and>
                  \<not> sql_valid s' \<and>
                  sql_history s' = sql_history s \<and> generated_sql s' = generated_sql s)
         \<and> (\<exists>w' q r. invoke w' q = Inr r \<and>
                  length (sql_history r) < sql_generation_attempts r)"
proof -
  have n: "sql_generation_node w s =
           Inr (s\<lparr>sql_generation_error := Some (''SQL generation error: '' @ str_exn e),
                  sql_valid := False,
                  sql_generation_attempts := sql_generation_attempts s + 1\<rparr>)"
    using assms by (auto simp: sql_generation_node_def Let_def)
  have "\<not> isl (invoke world_gen_raises ''top customers'')" by code_simp
  then have i: "invoke world_gen_raises ''top customers''
                  = Inr (projr (invoke world_gen_raises ''top customers''))"
    by (cases "invoke world_gen_raises ''top customers''") auto
  have "length (sql_history (projr (invoke world_gen_raises ''top customers'')))
              < sql_generation_attempts (projr (invoke world_gen_raises ''top customers''))"
    by code_simp
  then have x: "\<exists>w' q r. invoke w' q = Inr r \<and> length (sql_history r) < sql_generation_attempts r"
    using i by blast
  show ?thesis using n x by simp
qed

theorem C10_generation_failure_frame_witness:
  "selected_tables (projr (planner_node world_gen_raises (initial_state ''top customers''))) \<noteq> None \<and>
   generation_call world_gen_raises 0 = Inl (ValueError both_failed_msg) \<and>
   sql_generation_attempts (projr (sql_generation_node world_gen_raises
      (projr (planner_node world_gen_raises (initial_state ''top customers''))))) = 1 \<and>
   sql_history (projr (sql_generation_node world_gen_raises
      (projr (planner_node world_gen_raises (initial_state ''top customers''))))) = [] \<and>
   generated_sql (projr (sql_generation_node world_gen_raises
      (projr (planner_node world_gen_raises (initial_state ''top customers''))))) = None \<and>
   sql_generation_attempts (projr (invoke world_gen_raises ''top customers'')) = 2 \<and>
   sql_history (projr (invoke world_gen_raises ''top customers'')) = []"
proof -
  let ?s = "projr (planner_node world_gen_raises (initial_state ''top customers''))"
  have h1: "selected_tables ?s \<noteq> None" by code_simp
  have a0: "sql_generation_attempts ?s = 0" by code_simp
  have h0: "sql_history ?s = []" by code_simp
  have g0: "generated_sql ?s = None" by code_simp
  have h2: "generation_call world_gen_raises (sql_generation_attempts ?s) = Inl (ValueError both_failed_msg)"
    by (simp add: world_gen_raises_def)
  have h2': "generation_call world_gen_raises 0 = Inl (ValueError both_failed_msg)"
    by (simp add: world_gen_raises_def)
  obtain s' where s': "sql_generation_node world_gen_raises ?s = Inr s'"
      "sql_generation_attempts s' = sql_generation_attempts ?s + 1"
      "sql_history s' = sql_history ?s" "generated_sql s' = generated_sql ?s"
    using C10_generation_failure_frame [OF h1 h2] by blast
  have run: "sql_generation_attempts (projr (invoke world_gen_raises ''top customers'')) = 2 \<and>
     sql_history (projr (invoke world_gen_raises ''top customers'')) = []"
    by code_simp
  show ?thesis using h1 h2' s' a0 h0 g0 run by simp
qed

end
